theory Spec2Isabelle
  imports Complex_Main "HOL-Library.AList"
begin

unbundle bit_operations_syntax

section \<open>CAN log decoder (can\_ui\_tool.py): data model\<close>

text \<open>
  The decoding core of \<^verbatim>\<open>can_ui_tool.py\<close> is the body of the loop over the log lines
  (lines 41 to 110 of the script). Python strings are character lists, a character
  standing for a code point below 256: that is what the slicing, the length test and the
  hex and decimal parsers of the script look at. Lower-casing is modelled on the ASCII
  letters, which is all that the containment tests for \<open>right\<close> and \<open>left\<close> depend on.
  Python integers are \<open>int\<close>. A value computed by
  \<^verbatim>\<open>x / 100.0\<close> is kept as the exact quotient in \<open>real\<close>: Python's float is the double
  nearest to that quotient, and rounding to nearest is monotone, so an order between exact
  quotients carries over to the floats.
\<close>

datatype machine = CARDING | DF | FLYER

datatype pyval = PStr string | PInt int | PFloat real | PNaN

datatype error = IndexError | KeyError pyval | ValueError | AttributeError

datatype warning = LineParsingError error | FlyerDecodingError error

type_synonym linedict = "(string \<times> pyval) list"

text \<open>
  The tables read from the DBC workbook. A table is indexed by its row label and the model
  keeps the one column the script reads from it (\<^verbatim>\<open>msgType\<close> or \<^verbatim>\<open>name\<close>).
  The error table is indexed by integers, the others by strings. A cell holds whatever
  the workbook holds there: text as a rule, but a number where the cell is numeric and
  the float NaN (\<open>PNaN\<close>) where it is empty. The script stores the cell as it is.
\<close>

record schema =
  functionIDs :: "string \<rightharpoonup> pyval"
  CardingAddressIDs :: "string \<rightharpoonup> pyval"
  DFAddressIDs :: "string \<rightharpoonup> pyval"
  FlyerAddressIDs :: "string \<rightharpoonup> pyval"
  Operations :: "string \<rightharpoonup> pyval"
  Errors :: "int \<rightharpoonup> pyval"

section \<open>Python primitives used by the script\<close>

definition ebind :: "error + 'a \<Rightarrow> ('a \<Rightarrow> error + 'b) \<Rightarrow> error + 'b" where
  "ebind m f = (case m of Inl e \<Rightarrow> Inl e | Inr v \<Rightarrow> f v)"

text \<open>\<^verbatim>\<open>xs[i]\<close> for a non-negative index: IndexError out of range.\<close>

definition py_index :: "'a list \<Rightarrow> nat \<Rightarrow> error + 'a" where
  "py_index xs i = (if i < length xs then Inr (xs ! i) else Inl IndexError)"

text \<open>
  \<^verbatim>\<open>xs[lo:hi]\<close>: a negative bound counts from the end, every bound is clamped to
  \<open>[0, len]\<close>, and an empty range gives the empty sequence. Slicing never raises.
\<close>

definition norm_bound :: "nat \<Rightarrow> int \<Rightarrow> nat" where
  "norm_bound n i = (if i < 0 then nat (max 0 (int n + i)) else min n (nat i))"

definition py_slice :: "int option \<Rightarrow> int option \<Rightarrow> 'a list \<Rightarrow> 'a list" where
  "py_slice lo hi xs =
     (let n = length xs;
          a = (case lo of None \<Rightarrow> 0 | Some i \<Rightarrow> norm_bound n i);
          b = (case hi of None \<Rightarrow> n | Some j \<Rightarrow> norm_bound n j)
      in take (b - a) (drop a xs))"

text \<open>\<^verbatim>\<open>s.split(sep)\<close> for a one-character separator: every occurrence separates.\<close>

fun split_sep :: "char \<Rightarrow> string \<Rightarrow> string list" where
  "split_sep sep [] = [[]]"
| "split_sep sep (c # cs) =
     (if c = sep then [] # split_sep sep cs
      else (case split_sep sep cs of
              [] \<Rightarrow> [[c]]
            | t # ts \<Rightarrow> (c # t) # ts))"

text \<open>\<^verbatim>\<open>sub in s\<close> on strings: \<open>sub\<close> occurs in \<open>s\<close> as a contiguous block.\<close>

fun starts_with :: "string \<Rightarrow> string \<Rightarrow> bool" where
  "starts_with [] s = True"
| "starts_with (p # ps) [] = False"
| "starts_with (p # ps) (c # cs) = (p = c \<and> starts_with ps cs)"

fun str_contains :: "string \<Rightarrow> string \<Rightarrow> bool" where
  "str_contains sub [] = starts_with sub []"
| "str_contains sub (c # cs) = (starts_with sub (c # cs) \<or> str_contains sub cs)"

text \<open>\<^verbatim>\<open>s.lower()\<close> on ASCII: the letters A to Z are mapped, all else is kept.\<close>

definition lower_char :: "char \<Rightarrow> char" where
  "lower_char c =
     (case map_of (zip ''ABCDEFGHIJKLMNOPQRSTUVWXYZ'' ''abcdefghijklmnopqrstuvwxyz'') c of
        None \<Rightarrow> c
      | Some l \<Rightarrow> l)"

definition lower :: "string \<Rightarrow> string" where
  "lower s = map lower_char s"

text \<open>
  \<^verbatim>\<open>bytes.fromhex(s)\<close>: ASCII whitespace is skipped in front of a byte, then two hex
  digits make one byte; anything else, or a lone last digit, is a ValueError.
  Indexing the resulting \<^verbatim>\<open>bytes\<close> gives integers.
\<close>

definition is_ascii_space :: "char \<Rightarrow> bool" where
  "is_ascii_space c = (c \<in> set [CHR 0x09, CHR 0x0A, CHR 0x0B, CHR 0x0C, CHR 0x0D, CHR 0x20])"

definition hex_val :: "char \<Rightarrow> int option" where
  "hex_val c =
     map_of (zip ''0123456789abcdefABCDEF''
               [0, 1, 2, 3, 4, 5, 6, 7, 8, 9, 10, 11, 12, 13, 14, 15, 10, 11, 12, 13, 14, 15]) c"

fun bytes_fromhex :: "string \<Rightarrow> error + int list" where
  "bytes_fromhex [] = Inr []"
| "bytes_fromhex [c] = (if is_ascii_space c then Inr [] else Inl ValueError)"
| "bytes_fromhex (c # d # cs) =
     (if is_ascii_space c then bytes_fromhex (d # cs)
      else (case hex_val c of
              None \<Rightarrow> Inl ValueError
            | Some hi \<Rightarrow>
                (case hex_val d of
                   None \<Rightarrow> Inl ValueError
                 | Some lo \<Rightarrow>
                     (case bytes_fromhex cs of
                        Inl e \<Rightarrow> Inl e
                      | Inr bs \<Rightarrow> Inr ((push_bit 4 hi + lo) # bs)))))"

text \<open>
  The characters that \<^verbatim>\<open>str.isspace\<close> and \<^verbatim>\<open>str.split()\<close> take for whitespace, among
  the ASCII characters.
\<close>

definition is_py_space :: "char \<Rightarrow> bool" where
  "is_py_space c =
     (c \<in> set [CHR 0x09, CHR 0x0A, CHR 0x0B, CHR 0x0C, CHR 0x0D,
               CHR 0x1C, CHR 0x1D, CHR 0x1E, CHR 0x1F, CHR 0x20])"

text \<open>
  \<^verbatim>\<open>int(s)\<close> in base 10. The whitespace skipped at both ends is narrower than that of
  \<^verbatim>\<open>str.isspace\<close>: tab to carriage return and the space, and not the separators 0x1C to
  0x1F. Of the code points from 0x80 to 0xFF the interpreter first turns the two spaces
  0x85 and 0xA0 into a space; all others are invalid. After the whitespace one sign is
  allowed, then decimal digits, where single underscores may stand between two digits.
  Anything else is a ValueError, and so is a literal of more than 4300 digits (the
  interpreter's default \<^verbatim>\<open>int_max_str_digits\<close>).
\<close>

definition is_int_space :: "char \<Rightarrow> bool" where
  "is_int_space c =
     (c \<in> set [CHR 0x09, CHR 0x0A, CHR 0x0B, CHR 0x0C, CHR 0x0D, CHR 0x20,
               CHR 0x85, CHR 0xA0])"

definition int_strip :: "string \<Rightarrow> string" where
  "int_strip s = rev (dropWhile is_int_space (rev (dropWhile is_int_space s)))"

definition max_str_digits :: nat where
  "max_str_digits = 4300"

definition digit_val :: "char \<Rightarrow> int option" where
  "digit_val c = map_of (zip ''0123456789'' [0, 1, 2, 3, 4, 5, 6, 7, 8, 9]) c"

fun parse_digits :: "int \<Rightarrow> string \<Rightarrow> int option" where
  "parse_digits acc [] = Some acc"
| "parse_digits acc (c # cs) =
     (case digit_val c of
        Some d \<Rightarrow> parse_digits (acc * 10 + d) cs
      | None \<Rightarrow>
          (if c = CHR ''_'' then
             (case cs of
                [] \<Rightarrow> None
              | d # ds \<Rightarrow> (if digit_val d = None then None else parse_digits acc cs))
           else None))"

definition py_int :: "string \<Rightarrow> error + int" where
  "py_int s =
     (let t = int_strip s;
          neg = (case t of [] \<Rightarrow> False | c # cs \<Rightarrow> c = CHR ''-'');
          body = (case t of [] \<Rightarrow> [] | c # cs \<Rightarrow> if c = CHR ''-'' \<or> c = CHR ''+'' then cs else t)
      in (case body of
            [] \<Rightarrow> Inl ValueError
          | c # cs \<Rightarrow>
              (if digit_val c = None then Inl ValueError
               else (case parse_digits 0 body of
                       None \<Rightarrow> Inl ValueError
                     | Some n \<Rightarrow>
                         (if max_str_digits < length (filter (\<lambda>x. digit_val x \<noteq> None) body)
                          then Inl ValueError
                          else Inr (if neg then - n else n))))))"

text \<open>\<^verbatim>\<open>table.loc[key, column]\<close>: KeyError when the table has no such row.\<close>

definition loc :: "('k \<rightharpoonup> pyval) \<Rightarrow> ('k \<Rightarrow> pyval) \<Rightarrow> 'k \<Rightarrow> error + pyval" where
  "loc table show_key key =
     (case table key of None \<Rightarrow> Inl (KeyError (show_key key)) | Some v \<Rightarrow> Inr v)"

text \<open>\<^verbatim>\<open>d[k] = v\<close>, \<^verbatim>\<open>d.update({...})\<close> and \<^verbatim>\<open>d.get(k, default)\<close> on a dict.\<close>

definition dict_set :: "string \<Rightarrow> pyval \<Rightarrow> linedict \<Rightarrow> linedict" where
  "dict_set k v d = AList.update k v d"

definition dict_update :: "(string \<times> pyval) list \<Rightarrow> linedict \<Rightarrow> linedict" where
  "dict_update kvs d = fold (\<lambda>(k, v). dict_set k v) kvs d"

definition dict_get :: "linedict \<Rightarrow> string \<Rightarrow> pyval \<Rightarrow> pyval" where
  "dict_get d k dflt = (case map_of d k of None \<Rightarrow> dflt | Some v \<Rightarrow> v)"

section \<open>The body of the loop over the log lines\<close>

text \<open>Lines 51 to 53: the three codes cut from the tail of the extended identifier.\<close>

definition ext_source :: "string \<Rightarrow> string" where
  "ext_source extID = py_slice (Some (- 2)) None extID"

definition ext_dst :: "string \<Rightarrow> string" where
  "ext_dst extID = py_slice (Some (- 4)) (Some (- 2)) extID"

definition ext_fID :: "string \<Rightarrow> string" where
  "ext_fID extID = py_slice (Some (- 6)) (Some (- 4)) extID"

text \<open>Lines 63 to 67: the address table of the selected machine.\<close>

definition machineIDs :: "schema \<Rightarrow> machine \<Rightarrow> (string \<rightharpoonup> pyval)" where
  "machineIDs S m =
     (case m of CARDING \<Rightarrow> CardingAddressIDs S | DF \<Rightarrow> DFAddressIDs S | FLYER \<Rightarrow> FlyerAddressIDs S)"

text \<open>
  Lines 72 to 75: the branch on the message type, which is the cell of the function table
  compared with a string (a cell that is no text equals neither). An operation payload is
  looked up as it is written; an error payload is read as a decimal integer first.
\<close>

definition msg_branch :: "schema \<Rightarrow> pyval \<Rightarrow> string \<Rightarrow> linedict \<Rightarrow> error + linedict" where
  "msg_branch S msgType hexData linedict =
     (if msgType = PStr ''Operation'' then
        ebind (loc (Operations S) PStr hexData)
          (\<lambda>name. Inr (dict_set ''OperationCommand'' name linedict))
      else if msgType = PStr ''Error'' then
        ebind (py_int hexData)
          (\<lambda>n. ebind (loc (Errors S) PInt n)
             (\<lambda>name. Inr (dict_set ''ErrorCommand'' name linedict)))
      else Inr linedict)"

text \<open>
  Lines 45 to 75: everything of the line body that lies outside the inner \<^verbatim>\<open>try\<close>.
  An exception here leaves the body through the outer handler. The result is the payload
  token together with the dictionary built so far.
\<close>

definition header_stage :: "schema \<Rightarrow> machine \<Rightarrow> string list \<Rightarrow> error + (string \<times> linedict)" where
  "header_stage S m splits =
     ebind (py_index splits 0) (\<lambda>tok0.
     ebind (py_index splits 1) (\<lambda>tok1.
     ebind (py_index splits 3) (\<lambda>extID.
     ebind (py_index splits 4) (\<lambda>hexData.
     ebind (loc (functionIDs S) PStr (ext_fID extID)) (\<lambda>msgType.
     ebind (loc (machineIDs S m) PStr (ext_source extID)) (\<lambda>sname.
     ebind (loc (machineIDs S m) PStr (ext_dst extID)) (\<lambda>dname.
     ebind (msg_branch S msgType hexData
              (dict_set ''dst'' dname
                (dict_set ''source'' sname
                  (dict_update
                     [(''date'', PStr (py_slice (Some 1) None tok0)),
                      (''time'', PStr (py_slice None (Some (- 1)) tok1)),
                      (''extID'', PStr extID),
                      (''hexData'', PStr hexData),
                      (''msgType'', msgType)] [])))) (\<lambda>linedict.
     Inr (hexData, linedict)))))))))"

text \<open>
  Lines 81 to 92: the dictionary literal of the signals. Its entries are evaluated in
  order, and each \<^verbatim>\<open>data_bytes[i]\<close> raises IndexError when the payload is too short.
\<close>

definition be16 :: "int list \<Rightarrow> nat \<Rightarrow> nat \<Rightarrow> error + int" where
  "be16 data_bytes i j =
     ebind (py_index data_bytes i) (\<lambda>hi.
     ebind (py_index data_bytes j) (\<lambda>lo.
     Inr (push_bit 8 hi OR lo)))"

definition scaled :: "int \<Rightarrow> pyval" where
  "scaled v = PFloat (real_of_int v / 100)"

definition flyer_signals :: "int list \<Rightarrow> error + (string \<times> pyval) list" where
  "flyer_signals data_bytes =
     ebind (be16 data_bytes 0 1) (\<lambda>targetPosition.
     ebind (be16 data_bytes 2 3) (\<lambda>presentPosition.
     ebind (be16 data_bytes 4 5) (\<lambda>presentRPM.
     ebind (be16 data_bytes 6 7) (\<lambda>appliedDuty.
     ebind (py_index data_bytes 8) (\<lambda>FETtemp.
     ebind (py_index data_bytes 9) (\<lambda>MOTtemp.
     ebind (be16 data_bytes 10 11) (\<lambda>busCurrentADC.
     ebind (be16 data_bytes 12 13) (\<lambda>busVoltageADC.
     ebind (py_index data_bytes 14) (\<lambda>liftDirection.
     ebind (be16 data_bytes 15 16) (\<lambda>GBPresentPosition.
     ebind (be16 data_bytes 17 18) (\<lambda>encPresentPosition.
     ebind (py_index data_bytes 19) (\<lambda>usingPosition.
     Inr [(''targetPosition'', scaled targetPosition),
          (''presentPosition'', scaled presentPosition),
          (''presentRPM'', PInt presentRPM),
          (''appliedDuty'', PInt appliedDuty),
          (''FETtemp'', PInt FETtemp),
          (''MOTtemp'', PInt MOTtemp),
          (''busCurrentADC'', PInt busCurrentADC),
          (''busVoltageADC'', PInt busVoltageADC),
          (''liftDirection'', PInt liftDirection),
          (''GBPresentPosition'', scaled GBPresentPosition),
          (''encPresentPosition'', scaled encPresentPosition),
          (''usingPosition'', PInt usingPosition)]))))))))))))"

text \<open>
  Lines 95 to 103: the lift side. \<^verbatim>\<open>.lower()\<close> exists on strings only, so a value of
  another type raises AttributeError.
\<close>

definition get_lower :: "linedict \<Rightarrow> string \<Rightarrow> error + string" where
  "get_lower d k =
     (case dict_get d k (PStr []) of PStr s \<Rightarrow> Inr (lower s) | _ \<Rightarrow> Inl AttributeError)"

definition lift_side_of :: "string \<Rightarrow> string \<Rightarrow> string" where
  "lift_side_of src dst =
     (if str_contains ''right'' src \<or> str_contains ''right'' dst then ''Right Lift''
      else if str_contains ''left'' src \<or> str_contains ''left'' dst then ''Left Lift''
      else ''Unknown Lift'')"

definition lift_side :: "linedict \<Rightarrow> error + linedict" where
  "lift_side linedict =
     ebind (get_lower linedict ''source'') (\<lambda>src.
     ebind (get_lower linedict ''dst'') (\<lambda>dst.
     Inr (dict_set ''LiftSide'' (PStr (lift_side_of src dst)) linedict)))"

text \<open>
  Lines 77 to 106: the gate on the machine and on the length of the payload token, and the
  inner \<^verbatim>\<open>try\<close>. An exception in it is turned into a warning; the dictionary keeps what
  was stored before the exception.
\<close>

definition flyer_stage :: "machine \<Rightarrow> string \<Rightarrow> linedict \<Rightarrow> linedict \<times> warning list" where
  "flyer_stage m hexData linedict =
     (if m = FLYER \<and> 40 \<le> length hexData then
        (case bytes_fromhex hexData of
           Inl e \<Rightarrow> (linedict, [FlyerDecodingError e])
         | Inr data_bytes \<Rightarrow>
             (case flyer_signals data_bytes of
                Inl e \<Rightarrow> (linedict, [FlyerDecodingError e])
              | Inr signals \<Rightarrow>
                  (case lift_side (dict_update signals linedict) of
                     Inl e \<Rightarrow> (dict_update signals linedict, [FlyerDecodingError e])
                   | Inr d \<Rightarrow> (d, []))))
      else (linedict, []))"

text \<open>
  Lines 42 to 110: one pass of the loop body. A line without the token \<^verbatim>\<open>rcv\<close> is
  passed over; an exception outside the inner \<^verbatim>\<open>try\<close> drops the line with a warning;
  otherwise the dictionary is appended.
\<close>

datatype outcome =
    Ignored
  | Dropped (dropped_error: error)
  | Emitted (emitted_record: linedict) (emitted_warnings: "warning list")

definition tokens :: "string \<Rightarrow> string list" where
  "tokens line = split_sep (CHR '' '') line"

definition process_line :: "schema \<Rightarrow> machine \<Rightarrow> string \<Rightarrow> outcome" where
  "process_line S m line =
     (let splits = tokens line
      in if ''rcv'' \<in> set splits then
           (case header_stage S m splits of
              Inl e \<Rightarrow> Dropped e
            | Inr (hexData, linedict) \<Rightarrow>
                (case flyer_stage m hexData linedict of
                   (d, ws) \<Rightarrow> Emitted d ws))
         else Ignored)"

text \<open>Lines 40 to 110: the loop, with the list of records and the warnings as its state.\<close>

record run_state =
  allDicts :: "linedict list"
  warnings :: "warning list"

definition step :: "schema \<Rightarrow> machine \<Rightarrow> string \<Rightarrow> run_state \<Rightarrow> run_state" where
  "step S m line st =
     (case process_line S m line of
        Ignored \<Rightarrow> st
      | Dropped e \<Rightarrow> st\<lparr>warnings := warnings st @ [LineParsingError e]\<rparr>
      | Emitted d ws \<Rightarrow> st\<lparr>allDicts := allDicts st @ [d], warnings := warnings st @ ws\<rparr>)"

fun decode_lines :: "schema \<Rightarrow> machine \<Rightarrow> string list \<Rightarrow> run_state \<Rightarrow> run_state" where
  "decode_lines S m [] st = st"
| "decode_lines S m (line # rest) st = decode_lines S m rest (step S m line st)"

definition decode_log :: "schema \<Rightarrow> machine \<Rightarrow> string list \<Rightarrow> run_state" where
  "decode_log S m ls = decode_lines S m ls \<lparr>allDicts = [], warnings = []\<rparr>"

section \<open>A small schema and log lines for concrete runs\<close>

definition demo_schema :: schema where
  "demo_schema =
     \<lparr>functionIDs = map_of [(''01'', PStr ''Telemetry''), (''0A'', PStr ''Operation''),
                             (''0E'', PStr ''Error''), (''1'', PStr ''Telemetry'')],
      CardingAddressIDs = map_of [(''02'', PStr ''Controller''), (''03'', PStr ''Right Motor'')],
      DFAddressIDs = map_of [(''02'', PStr ''Controller''), (''03'', PStr ''Drafting Motor'')],
      FlyerAddressIDs = map_of [(''02'', PStr ''Controller''), (''03'', PStr ''Right Motor''),
                                (''04'', PStr ''left_sensor'')],
      Operations = map_of [(''01'', PStr ''Start'')],
      Errors = map_of [(7, PStr ''Overcurrent'')]\<rparr>"

definition telemetry_line :: string where
  "telemetry_line =
     ''[2024-01-01 12:00:00] rcv 0x010203 0102030405060708090A0B0C0D0E0F1011121314''"

definition telemetry_bytes :: "int list" where
  "telemetry_bytes = [1, 2, 3, 4, 5, 6, 7, 8, 9, 10, 11, 12, 13, 14, 15, 16, 17, 18, 19, 20]"

definition unknown_function_line :: string where
  "unknown_function_line = ''[2024-01-01 12:00:01] rcv 0x990203 00''"

definition short_identifier_line :: string where
  "short_identifier_line = ''[2024-01-01 12:00:02] rcv 10203 00''"

definition error_hex_line :: string where
  "error_hex_line = ''[2024-01-01 12:00:03] rcv 0x0E0203 0A''"

definition error_dec_line :: string where
  "error_dec_line = ''[2024-01-01 12:00:04] rcv 0x0E0203 7''"

definition short_payload_line :: string where
  "short_payload_line = ''[2024-01-01 12:00:05] rcv 0x010203 0102030405''"

definition odd_payload_line :: string where
  "odd_payload_line =
     ''[2024-01-01 12:00:06] rcv 0x010203 0102030405060708090A0B0C0D0E0F10111213141''"

definition double_space_line :: string where
  "double_space_line = ''[2024-01-01  12:00:07] rcv 0x010203 00''"

definition few_tokens_line :: string where
  "few_tokens_line = ''[2024-01-01 12:00:08] rcv 0x010203''"

definition transmit_line :: string where
  "transmit_line = ''[2024-01-01 12:00:09] snd 0x010203 00''"

definition tab_padded_line :: string where
  "tab_padded_line =
     ''[2024-01-01 12:00:10] rcv 0x010203 0102030405060708090A0B0C0D0E0F10111213'' @
     [CHR 0x09, CHR 0x09]"

definition two_digit_schema :: schema where
  "two_digit_schema =
     demo_schema\<lparr>functionIDs := map_of [(''01'', PStr ''Telemetry''), (''0A'', PStr ''Operation''),
                                         (''0E'', PStr ''Error'')]\<rparr>"

text \<open>The same tables with the name cell of address 03 left empty in the flyer table.\<close>

definition empty_name_schema :: schema where
  "empty_name_schema =
     demo_schema\<lparr>FlyerAddressIDs := map_of [(''02'', PStr ''Controller''), (''03'', PNaN)]\<rparr>"

definition error_separator_line :: string where
  "error_separator_line = ''[2024-01-01 12:00:12] rcv 0x0E0203 7'' @ [CHR 0x1F]"

definition tab_separated_line :: string where
  "tab_separated_line =
     ''[2024-01-01'' @ [CHR 0x09] @ ''12:00:11]'' @ [CHR 0x09] @ ''rcv'' @ [CHR 0x09] @
     ''0x010203'' @ [CHR 0x09] @ ''00''"

section \<open>The tokenizer in the words of the specification\<close>

text \<open>
  The specification says of the line tokenizer that it ``splits on whitespace'' and takes
  the tokens by position. Read as it stands, this is the splitting of \<^verbatim>\<open>str.split()\<close>:
  any run of whitespace characters separates two tokens and no token is empty. It is kept
  apart from \<open>tokens\<close>, which is what the script does, to compare the two.
\<close>

fun spec_split_when :: "(char \<Rightarrow> bool) \<Rightarrow> string \<Rightarrow> string list" where
  "spec_split_when is_sep [] = [[]]"
| "spec_split_when is_sep (c # cs) =
     (if is_sep c then [] # spec_split_when is_sep cs
      else (case spec_split_when is_sep cs of
              [] \<Rightarrow> [[c]]
            | t # ts \<Rightarrow> (c # t) # ts))"

definition spec_whitespace_tokens :: "string \<Rightarrow> string list" where
  "spec_whitespace_tokens line = filter (\<lambda>t. t \<noteq> []) (spec_split_when is_py_space line)"

text \<open>\<^verbatim>\<open>sep.join(parts)\<close>, to say what a split of a line is.\<close>

fun join_sep :: "char \<Rightarrow> string list \<Rightarrow> string" where
  "join_sep sep [] = []"
| "join_sep sep [t] = t"
| "join_sep sep (t # u # ts) = t @ sep # join_sep sep (u # ts)"

section \<open>The keys of a record\<close>

text \<open>The keys the line body can store: outside and inside the decoding branch.\<close>

definition header_keys :: "string list" where
  "header_keys = [''date'', ''time'', ''extID'', ''hexData'', ''msgType'', ''source'', ''dst'',
                  ''OperationCommand'', ''ErrorCommand'']"

definition signal_keys :: "string list" where
  "signal_keys = [''targetPosition'', ''presentPosition'', ''presentRPM'', ''appliedDuty'',
                  ''FETtemp'', ''MOTtemp'', ''busCurrentADC'', ''busVoltageADC'',
                  ''liftDirection'', ''GBPresentPosition'', ''encPresentPosition'',
                  ''usingPosition'']"

section \<open>Identifier decomposition\<close>

lemma norm_bound_tail:
  "norm_bound n (- 2) = n - 2" "norm_bound n (- 4) = n - 4" "norm_bound n (- 6) = n - 6"
  by (auto simp: norm_bound_def)

lemma ext_source_eq: "ext_source x = drop (length x - 2) x"
  by (simp add: ext_source_def py_slice_def norm_bound_tail)

lemma ext_dst_eq: "ext_dst x = take (length x - 2 - (length x - 4)) (drop (length x - 4) x)"
  by (simp add: ext_dst_def py_slice_def norm_bound_tail Let_def)

lemma ext_fID_eq: "ext_fID x = take (length x - 4 - (length x - 6)) (drop (length x - 6) x)"
  by (simp add: ext_fID_def py_slice_def norm_bound_tail Let_def)

lemma codes_of_tail:
  assumes "6 \<le> length x"
  shows "ext_fID x = take 2 (drop (length x - 6) x)"
    and "ext_dst x = take 2 (drop 2 (drop (length x - 6) x))"
    and "ext_source x = drop 4 (drop (length x - 6) x)"
proof -
  from assms have a: "length x - 4 - (length x - 6) = 2" "length x - 2 - (length x - 4) = 2"
    and b: "2 + (length x - 6) = length x - 4" "4 + (length x - 6) = length x - 2"
    by arith+
  show "ext_fID x = take 2 (drop (length x - 6) x)"
    by (simp only: ext_fID_eq a)
  show "ext_dst x = take 2 (drop 2 (drop (length x - 6) x))"
    by (simp only: ext_dst_eq a b drop_drop)
  show "ext_source x = drop 4 (drop (length x - 6) x)"
    by (simp only: ext_source_eq b drop_drop)
qed

text \<open>
  C9. Two extended identifiers of at least 6 characters that agree on their last 6
  characters decompose into the same function, destination and source codes: what stands
  before the last 6 characters has no influence.
\<close>

theorem decomposition_depends_on_last_six:
  assumes "6 \<le> length a" and "6 \<le> length b"
    and "drop (length a - 6) a = drop (length b - 6) b"
  shows "ext_fID a = ext_fID b \<and> ext_dst a = ext_dst b \<and> ext_source a = ext_source b"
  using assms by (simp add: codes_of_tail)

theorem decomposition_depends_on_last_six_witness:
  "ext_fID ''0x010203'' = ext_fID ''18FF010203'' \<and>
   ext_dst ''0x010203'' = ext_dst ''18FF010203'' \<and>
   ext_source ''0x010203'' = ext_source ''18FF010203''"
  using decomposition_depends_on_last_six [of "''0x010203''" "''18FF010203''"] by simp

section \<open>The payload decoder\<close>

lemma hex_val_range: "hex_val c = Some v \<Longrightarrow> 0 \<le> v \<and> v < 16"
  by (auto simp: hex_val_def split: if_splits)

lemma bytes_fromhex_range:
  "bytes_fromhex s = Inr b \<Longrightarrow> x \<in> set b \<Longrightarrow> 0 \<le> x \<and> x < 256"
proof (induction s arbitrary: b rule: bytes_fromhex.induct)
  case 1
  then show ?case by simp
next
  case (2 c)
  then show ?case by (simp split: if_splits)
next
  case (3 c d cs)
  show ?case
  proof (cases "is_ascii_space c")
    case True
    with 3 show ?thesis by simp
  next
    case False
    with "3.prems" obtain hi lo bs where
      h: "hex_val c = Some hi" "hex_val d = Some lo" "bytes_fromhex cs = Inr bs"
      and b: "b = (push_bit 4 hi + lo) # bs"
      by (auto split: option.splits sum.splits)
    from hex_val_range [OF h(1)] hex_val_range [OF h(2)]
    have r: "0 \<le> push_bit 4 hi + lo \<and> push_bit 4 hi + lo < 256"
      by (simp add: push_bit_eq_mult)
    from "3.prems"(2) b consider "x = push_bit 4 hi + lo" | "x \<in> set bs" by auto
    then show ?thesis
    proof cases
      case 1
      with r show ?thesis by simp
    next
      case 2
      with "3.IH"(2) [OF False h(1) h(2) h(3)] show ?thesis by simp
    qed
  qed
qed

lemma be_pair:
  fixes hi lo :: int
  assumes "0 \<le> lo" "lo < 256"
  shows "push_bit 8 hi OR lo = hi * 256 + lo"
proof -
  have lo: "take_bit 8 lo = lo"
    using assms by (simp add: take_bit_int_eq_self)
  have "push_bit 8 hi AND take_bit 8 lo = 0"
    by (auto simp: bit_eq_iff bit_simps)
  then have "push_bit 8 hi + take_bit 8 lo = push_bit 8 hi OR take_bit 8 lo"
    by (rule disjunctive_add_eq_or)
  then show ?thesis by (simp add: lo push_bit_eq_mult)
qed

lemma be16_ok:
  "i < length b \<Longrightarrow> j < length b \<Longrightarrow> be16 b i j = Inr (push_bit 8 (b ! i) OR b ! j)"
  by (simp add: be16_def py_index_def ebind_def)

lemma be16_short: "\<not> j < length b \<Longrightarrow> i \<le> j \<Longrightarrow> be16 b i j = Inl IndexError"
  by (simp add: be16_def py_index_def ebind_def)

lemma ebind_Inl: "ebind (Inl e) f = Inl e"
  by (simp add: ebind_def)

lemma ebind_Inr: "ebind (Inr v) f = f v"
  by (simp add: ebind_def)

lemma flyer_signals_ok:
  assumes "20 \<le> length b"
  shows "flyer_signals b =
     Inr [(''targetPosition'', scaled (push_bit 8 (b ! 0) OR b ! 1)),
          (''presentPosition'', scaled (push_bit 8 (b ! 2) OR b ! 3)),
          (''presentRPM'', PInt (push_bit 8 (b ! 4) OR b ! 5)),
          (''appliedDuty'', PInt (push_bit 8 (b ! 6) OR b ! 7)),
          (''FETtemp'', PInt (b ! 8)),
          (''MOTtemp'', PInt (b ! 9)),
          (''busCurrentADC'', PInt (push_bit 8 (b ! 10) OR b ! 11)),
          (''busVoltageADC'', PInt (push_bit 8 (b ! 12) OR b ! 13)),
          (''liftDirection'', PInt (b ! 14)),
          (''GBPresentPosition'', scaled (push_bit 8 (b ! 15) OR b ! 16)),
          (''encPresentPosition'', scaled (push_bit 8 (b ! 17) OR b ! 18)),
          (''usingPosition'', PInt (b ! 19))]"
proof -
  from assms have "b \<noteq> []" by auto
  with assms show ?thesis
    by (simp add: flyer_signals_def be16_def py_index_def ebind_Inr)
qed

lemma ebind_success: "ebind m f = Inr v \<Longrightarrow> \<exists>x. m = Inr x \<and> f x = Inr v"
  by (cases m) (simp_all add: ebind_def)

lemma flyer_signals_length: "flyer_signals b = Inr sig \<Longrightarrow> 20 \<le> length b"
  unfolding flyer_signals_def
  by (auto dest!: ebind_success simp: py_index_def split: if_splits)

lemma ebind_error: "ebind m f = Inl e \<Longrightarrow> m = Inl e \<or> (\<exists>v. m = Inr v \<and> f v = Inl e)"
  by (cases m) (simp_all add: ebind_def)

lemma py_index_error: "py_index xs i = Inl e \<Longrightarrow> e = IndexError"
  by (simp add: py_index_def split: if_splits)

lemma be16_error: "be16 b i j = Inl e \<Longrightarrow> e = IndexError"
  by (auto simp: be16_def dest!: ebind_error py_index_error)

lemma flyer_signals_error: "flyer_signals b = Inl e \<Longrightarrow> e = IndexError"
  unfolding flyer_signals_def
  by (auto dest!: ebind_error dest: py_index_error be16_error)

lemma flyer_signals_short:
  assumes "length b < 20"
  shows "flyer_signals b = Inl IndexError"
proof (cases "flyer_signals b")
  case (Inl e)
  then show ?thesis using flyer_signals_error by blast
next
  case (Inr sig)
  with flyer_signals_length assms show ?thesis by fastforce
qed

section \<open>The header stage\<close>

lemma loc_Some: "table key = Some v \<Longrightarrow> loc table sh key = Inr v"
  by (simp add: loc_def)

lemma loc_None: "table key = None \<Longrightarrow> loc table sh key = Inl (KeyError (sh key))"
  by (simp add: loc_def)

lemma loc_success: "loc table sh key = Inr v \<Longrightarrow> table key = Some v"
  by (simp add: loc_def split: option.splits)

lemma py_index_success: "py_index xs i = Inr v \<Longrightarrow> i < length xs \<and> v = xs ! i"
  by (auto simp: py_index_def split: if_splits)

lemma header_base:
  "dict_set ''dst'' dn
     (dict_set ''source'' sn
        (dict_update
           [(''date'', PStr dt), (''time'', PStr tm), (''extID'', PStr x),
            (''hexData'', PStr h), (''msgType'', mt)] [])) =
   [(''date'', PStr dt), (''time'', PStr tm), (''extID'', PStr x),
    (''hexData'', PStr h), (''msgType'', mt), (''source'', sn), (''dst'', dn)]"
  by (simp add: dict_set_def dict_update_def)

lemma header_stage_eq:
  assumes "4 < length splits"
    and "functionIDs S (ext_fID (splits ! 3)) = Some mt"
    and "machineIDs S m (ext_source (splits ! 3)) = Some sn"
    and "machineIDs S m (ext_dst (splits ! 3)) = Some dn"
  shows "header_stage S m splits =
     ebind (msg_branch S mt (splits ! 4)
        [(''date'', PStr (py_slice (Some 1) None (splits ! 0))),
         (''time'', PStr (py_slice None (Some (- 1)) (splits ! 1))),
         (''extID'', PStr (splits ! 3)),
         (''hexData'', PStr (splits ! 4)),
         (''msgType'', mt), (''source'', sn), (''dst'', dn)])
       (\<lambda>linedict. Inr (splits ! 4, linedict))"
proof -
  from assms(1) have ix: "py_index splits 0 = Inr (splits ! 0)" "py_index splits 1 = Inr (splits ! 1)"
    "py_index splits 3 = Inr (splits ! 3)" "py_index splits 4 = Inr (splits ! 4)"
    by (auto simp: py_index_def)
  have lk: "loc (functionIDs S) PStr (ext_fID (splits ! 3)) = Inr mt"
    "loc (machineIDs S m) PStr (ext_source (splits ! 3)) = Inr sn"
    "loc (machineIDs S m) PStr (ext_dst (splits ! 3)) = Inr dn"
    using assms(2-4) by (simp_all add: loc_def)
  show ?thesis
    unfolding header_stage_def ix ebind_Inr lk header_base ..
qed

lemma header_stage_success:
  assumes "header_stage S m splits = Inr (h, d)"
  shows "\<exists>mt sn dn. 4 < length splits \<and> h = splits ! 4 \<and>
           functionIDs S (ext_fID (splits ! 3)) = Some mt \<and>
           machineIDs S m (ext_source (splits ! 3)) = Some sn \<and>
           machineIDs S m (ext_dst (splits ! 3)) = Some dn \<and>
           msg_branch S mt h
             [(''date'', PStr (py_slice (Some 1) None (splits ! 0))),
              (''time'', PStr (py_slice None (Some (- 1)) (splits ! 1))),
              (''extID'', PStr (splits ! 3)),
              (''hexData'', PStr h),
              (''msgType'', mt), (''source'', sn), (''dst'', dn)] = Inr d"
  using assms unfolding header_stage_def header_base
  by (auto dest!: ebind_success py_index_success loc_success)

lemma msg_branch_success:
  assumes "msg_branch S mt h d0 = Inr d"
  shows "(mt = PStr ''Operation'' \<and> (\<exists>name. Operations S h = Some name \<and>
             d = dict_set ''OperationCommand'' name d0)) \<or>
         (mt = PStr ''Error'' \<and> (\<exists>n name. py_int h = Inr n \<and> Errors S n = Some name \<and>
             d = dict_set ''ErrorCommand'' name d0)) \<or>
         (mt \<noteq> PStr ''Operation'' \<and> mt \<noteq> PStr ''Error'' \<and> d = d0)"
  using assms unfolding msg_branch_def
  by (auto dest!: ebind_success loc_success split: if_splits)

lemma map_of_dict_set: "map_of (dict_set k v d) k' = (if k' = k then Some v else map_of d k')"
  by (simp add: dict_set_def update_conv')

lemma msg_branch_keeps:
  assumes "msg_branch S mt h d0 = Inr d" and "k \<noteq> ''OperationCommand''" and "k \<noteq> ''ErrorCommand''"
  shows "map_of d k = map_of d0 k"
  using msg_branch_success [OF assms(1)] assms(2,3) by (auto simp: map_of_dict_set)

section \<open>The decoding branch and the line body\<close>

lemma map_of_dict_update:
  "map_of (dict_update kvs d) k =
     (case map_of (rev kvs) k of None \<Rightarrow> map_of d k | Some v \<Rightarrow> Some v)"
proof (induction kvs arbitrary: d)
  case Nil
  then show ?case by (simp add: dict_update_def)
next
  case (Cons kv kvs)
  obtain k0 v0 where kv: "kv = (k0, v0)" by (cases kv)
  have "dict_update (kv # kvs) d = dict_update kvs (dict_set k0 v0 d)"
    by (simp add: dict_update_def kv)
  then show ?case
    by (simp add: Cons.IH map_of_dict_set kv map_add_def split: option.splits)
qed

lemma header_stage_fields:
  assumes "header_stage S m splits = Inr (h, d)"
  shows "\<exists>mt sn dn. map_of d ''date'' = Some (PStr (py_slice (Some 1) None (splits ! 0))) \<and>
           map_of d ''time'' = Some (PStr (py_slice None (Some (- 1)) (splits ! 1))) \<and>
           map_of d ''extID'' = Some (PStr (splits ! 3)) \<and>
           map_of d ''hexData'' = Some (PStr (splits ! 4)) \<and>
           map_of d ''msgType'' = Some mt \<and>
           map_of d ''source'' = Some sn \<and>
           map_of d ''dst'' = Some dn \<and>
           functionIDs S (ext_fID (splits ! 3)) = Some mt \<and>
           machineIDs S m (ext_source (splits ! 3)) = Some sn \<and>
           machineIDs S m (ext_dst (splits ! 3)) = Some dn"
proof -
  from header_stage_success [OF assms] obtain mt sn dn where
    h: "h = splits ! 4" and
    t: "functionIDs S (ext_fID (splits ! 3)) = Some mt"
      "machineIDs S m (ext_source (splits ! 3)) = Some sn"
      "machineIDs S m (ext_dst (splits ! 3)) = Some dn" and
    mb: "msg_branch S mt h
             [(''date'', PStr (py_slice (Some 1) None (splits ! 0))),
              (''time'', PStr (py_slice None (Some (- 1)) (splits ! 1))),
              (''extID'', PStr (splits ! 3)),
              (''hexData'', PStr h),
              (''msgType'', mt), (''source'', sn), (''dst'', dn)] = Inr d"
    by blast
  have "map_of d ''date'' = Some (PStr (py_slice (Some 1) None (splits ! 0)))"
    by (simp add: msg_branch_keeps [OF mb])
  moreover have "map_of d ''time'' = Some (PStr (py_slice None (Some (- 1)) (splits ! 1)))"
    by (simp add: msg_branch_keeps [OF mb])
  moreover have "map_of d ''extID'' = Some (PStr (splits ! 3))"
    by (simp add: msg_branch_keeps [OF mb])
  moreover have "map_of d ''hexData'' = Some (PStr (splits ! 4))"
    by (simp add: msg_branch_keeps [OF mb] h)
  moreover have "map_of d ''msgType'' = Some mt"
    by (simp add: msg_branch_keeps [OF mb])
  moreover have "map_of d ''source'' = Some sn"
    by (simp add: msg_branch_keeps [OF mb])
  moreover have "map_of d ''dst'' = Some dn"
    by (simp add: msg_branch_keeps [OF mb])
  ultimately show ?thesis using t by blast
qed

lemma header_stage_keys:
  assumes "header_stage S m splits = Inr (h, d)" and "k \<notin> set header_keys"
  shows "map_of d k = None"
proof -
  from header_stage_success [OF assms(1)] obtain mt d0 where
    mb: "msg_branch S mt h d0 = Inr d" and
    d0: "\<exists>a b c e f g i. d0 = [(''date'', a), (''time'', b), (''extID'', c), (''hexData'', e),
              (''msgType'', f), (''source'', g), (''dst'', i)]"
    by blast
  from assms(2) have k: "k \<noteq> ''OperationCommand''" "k \<noteq> ''ErrorCommand''"
    by (auto simp: header_keys_def)
  from d0 assms(2) have "map_of d0 k = None"
    by (auto simp: header_keys_def)
  with msg_branch_keeps [OF mb k] show ?thesis by simp
qed

lemma bytes_fromhex_error: "bytes_fromhex s = Inl e \<Longrightarrow> e = ValueError"
  by (induction s arbitrary: e rule: bytes_fromhex.induct)
     (auto split: if_splits option.splits sum.splits)

lemma flyer_stage_gate:
  "\<not> (m = FLYER \<and> 40 \<le> length h) \<Longrightarrow> flyer_stage m h d = (d, [])"
  by (auto simp: flyer_stage_def)

lemma flyer_stage_undecodable:
  assumes "40 \<le> length h" and "bytes_fromhex h = Inl e"
  shows "flyer_stage FLYER h d = (d, [FlyerDecodingError ValueError])"
  using assms bytes_fromhex_error [OF assms(2)] by (simp add: flyer_stage_def)

lemma flyer_stage_short:
  assumes "40 \<le> length h" and "bytes_fromhex h = Inr b" and "length b < 20"
  shows "flyer_stage FLYER h d = (d, [FlyerDecodingError IndexError])"
  using assms by (simp add: flyer_stage_def flyer_signals_short)

lemma get_lower_str: "map_of d k = Some (PStr s) \<Longrightarrow> get_lower d k = Inr (lower s)"
  by (simp add: get_lower_def dict_get_def)

lemma get_lower_absent: "map_of d k = None \<Longrightarrow> get_lower d k = Inr []"
  by (simp add: get_lower_def dict_get_def lower_def)

lemma flyer_stage_decoded:
  assumes "40 \<le> length h" and "bytes_fromhex h = Inr b" and "20 \<le> length b"
    and "flyer_signals b = Inr sig"
    and "map_of (dict_update sig d) ''source'' = Some (PStr sn)"
    and "map_of (dict_update sig d) ''dst'' = Some (PStr dn)"
  shows "flyer_stage FLYER h d =
           (dict_set ''LiftSide'' (PStr (lift_side_of (lower sn) (lower dn))) (dict_update sig d), [])"
  using assms
  by (simp add: flyer_stage_def lift_side_def get_lower_str ebind_Inr)

lemma process_line_ignored: "''rcv'' \<notin> set (tokens line) \<Longrightarrow> process_line S m line = Ignored"
  by (simp add: process_line_def)

lemma process_line_dropped:
  "''rcv'' \<in> set (tokens line) \<Longrightarrow> header_stage S m (tokens line) = Inl e \<Longrightarrow>
     process_line S m line = Dropped e"
  by (simp add: process_line_def)

lemma process_line_emitted:
  "''rcv'' \<in> set (tokens line) \<Longrightarrow> header_stage S m (tokens line) = Inr (h, d0) \<Longrightarrow>
     process_line S m line = Emitted (fst (flyer_stage m h d0)) (snd (flyer_stage m h d0))"
  by (simp add: process_line_def split: prod.splits)

lemma process_line_Emitted_inv:
  assumes "process_line S m line = Emitted d ws"
  shows "''rcv'' \<in> set (tokens line) \<and>
         (\<exists>d0. header_stage S m (tokens line) = Inr (tokens line ! 4, d0) \<and>
               flyer_stage m (tokens line ! 4) d0 = (d, ws))"
proof -
  from assms have c: "''rcv'' \<in> set (tokens line)"
    by (simp add: process_line_def Let_def split: if_splits)
  with assms obtain h d0 where hs: "header_stage S m (tokens line) = Inr (h, d0)"
    and fs: "flyer_stage m h d0 = (d, ws)"
    by (auto simp: process_line_def Let_def split: sum.splits prod.splits)
  from header_stage_success [OF hs] have "h = tokens line ! 4" by blast
  with c hs fs show ?thesis by blast
qed

lemma signals_keep:
  assumes "flyer_signals b = Inr sig" and "k \<notin> set signal_keys"
  shows "map_of (dict_update sig d) k = map_of d k"
proof -
  from flyer_signals_length [OF assms(1)] have "20 \<le> length b" .
  from flyer_signals_ok [OF this] assms(1) have "map_of (rev sig) k = None"
    using assms(2) by (auto simp: signal_keys_def)
  then show ?thesis by (simp add: map_of_dict_update)
qed

lemma lift_side_fails:
  assumes "map_of d ''source'' = Some v" and "map_of d ''dst'' = Some w"
    and "\<not> (\<exists>sn dn. v = PStr sn \<and> w = PStr dn)"
  shows "lift_side d = Inl AttributeError"
proof (cases v)
  case (PStr sn)
  with assms(3) have "\<forall>dn. w \<noteq> PStr dn" by simp
  then have "get_lower d ''dst'' = Inl AttributeError"
    using assms(2) by (cases w) (simp_all add: get_lower_def dict_get_def)
  moreover have "get_lower d ''source'' = Inr (lower sn)"
    using assms(1) PStr by (simp add: get_lower_def dict_get_def)
  ultimately show ?thesis by (simp add: lift_side_def ebind_Inr ebind_Inl)
next
  case (PInt n)
  with assms(1) show ?thesis
    by (simp add: lift_side_def get_lower_def dict_get_def ebind_Inl)
next
  case (PFloat x)
  with assms(1) show ?thesis
    by (simp add: lift_side_def get_lower_def dict_get_def ebind_Inl)
next
  case PNaN
  with assms(1) show ?thesis
    by (simp add: lift_side_def get_lower_def dict_get_def ebind_Inl)
qed

lemma flyer_stage_unnamed:
  assumes "40 \<le> length h" and "bytes_fromhex h = Inr b" and "20 \<le> length b"
    and "flyer_signals b = Inr sig"
    and "lift_side (dict_update sig d) = Inl e"
  shows "flyer_stage FLYER h d = (dict_update sig d, [FlyerDecodingError e])"
  using assms by (simp add: flyer_stage_def)

text \<open>
  The three shapes of an emitted record: decoded with its lift side; decoded, but a name
  that is no text stopped the branch after the signals were stored; or the record of the
  header stage as it is.
\<close>

lemma emitted_cases [consumes 1, case_names decoded unnamed plain]:
  assumes "process_line S m line = Emitted d ws"
  obtains
    (decoded) d0 b sig sn dn where
      "header_stage S m (tokens line) = Inr (tokens line ! 4, d0)"
      "m = FLYER" "40 \<le> length (tokens line ! 4)"
      "bytes_fromhex (tokens line ! 4) = Inr b" "20 \<le> length b"
      "flyer_signals b = Inr sig"
      "map_of d0 ''source'' = Some (PStr sn)" "map_of d0 ''dst'' = Some (PStr dn)"
      "d = dict_set ''LiftSide'' (PStr (lift_side_of (lower sn) (lower dn))) (dict_update sig d0)"
      "ws = []"
  | (unnamed) d0 b sig where
      "header_stage S m (tokens line) = Inr (tokens line ! 4, d0)"
      "m = FLYER" "40 \<le> length (tokens line ! 4)"
      "bytes_fromhex (tokens line ! 4) = Inr b" "20 \<le> length b"
      "flyer_signals b = Inr sig"
      "\<not> (\<exists>sn dn. map_of d0 ''source'' = Some (PStr sn) \<and> map_of d0 ''dst'' = Some (PStr dn))"
      "d = dict_update sig d0"
      "ws = [FlyerDecodingError AttributeError]"
  | (plain)
      "header_stage S m (tokens line) = Inr (tokens line ! 4, d)"
      "\<not> (m = FLYER \<and> 40 \<le> length (tokens line ! 4) \<and>
          (\<exists>b. bytes_fromhex (tokens line ! 4) = Inr b \<and> 20 \<le> length b))"
      "ws = (if m = FLYER \<and> 40 \<le> length (tokens line ! 4)
             then [FlyerDecodingError
                     (case bytes_fromhex (tokens line ! 4) of
                        Inl e \<Rightarrow> ValueError | Inr b \<Rightarrow> IndexError)]
             else [])"
proof -
  let ?h = "tokens line ! 4"
  from process_line_Emitted_inv [OF assms] obtain d0 where
    hs: "header_stage S m (tokens line) = Inr (?h, d0)" and
    fs: "flyer_stage m ?h d0 = (d, ws)"
    by blast
  from header_stage_fields [OF hs] obtain v w where
    vw: "map_of d0 ''source'' = Some v" "map_of d0 ''dst'' = Some w"
    by blast
  show thesis
  proof (cases "m = FLYER \<and> 40 \<le> length ?h")
    case False
    with fs flyer_stage_gate [OF False, of d0] have e: "d = d0" "ws = []" by simp_all
    show thesis
    proof (rule plain)
      show "header_stage S m (tokens line) = Inr (?h, d)" using hs e by simp
      show "\<not> (m = FLYER \<and> 40 \<le> length ?h \<and> (\<exists>b. bytes_fromhex ?h = Inr b \<and> 20 \<le> length b))"
        using False by blast
      show "ws = (if m = FLYER \<and> 40 \<le> length ?h
             then [FlyerDecodingError (case bytes_fromhex ?h of Inl e \<Rightarrow> ValueError | Inr b \<Rightarrow> IndexError)]
             else [])"
        using False e by simp
    qed
  next
    case gate: True
    then have m: "m = FLYER" and l: "40 \<le> length ?h" by simp_all
    show thesis
    proof (cases "bytes_fromhex ?h")
      case (Inl e)
      from fs flyer_stage_undecodable [OF l Inl, of d0] m
      have e: "d = d0" "ws = [FlyerDecodingError ValueError]" by simp_all
      show thesis
      proof (rule plain)
        show "header_stage S m (tokens line) = Inr (?h, d)" using hs e by simp
        show "\<not> (m = FLYER \<and> 40 \<le> length ?h \<and> (\<exists>b. bytes_fromhex ?h = Inr b \<and> 20 \<le> length b))"
          using Inl by simp
        show "ws = (if m = FLYER \<and> 40 \<le> length ?h
             then [FlyerDecodingError (case bytes_fromhex ?h of Inl e \<Rightarrow> ValueError | Inr b \<Rightarrow> IndexError)]
             else [])"
          using m l e Inl by simp
      qed
    next
      case (Inr b)
      show thesis
      proof (cases "length b < 20")
        case True
        from fs flyer_stage_short [OF l Inr True, of d0] m
        have e: "d = d0" "ws = [FlyerDecodingError IndexError]" by simp_all
        show thesis
        proof (rule plain)
          show "header_stage S m (tokens line) = Inr (?h, d)" using hs e by simp
          show "\<not> (m = FLYER \<and> 40 \<le> length ?h \<and> (\<exists>b. bytes_fromhex ?h = Inr b \<and> 20 \<le> length b))"
            using Inr True by simp
          show "ws = (if m = FLYER \<and> 40 \<le> length ?h
               then [FlyerDecodingError (case bytes_fromhex ?h of Inl e \<Rightarrow> ValueError | Inr b \<Rightarrow> IndexError)]
               else [])"
            using m l e Inr by simp
        qed
      next
        case False
        then have len: "20 \<le> length b" by simp
        from flyer_signals_ok [OF len] obtain sig where sig: "flyer_signals b = Inr sig"
          by blast
        have keep: "map_of (dict_update sig d0) ''source'' = Some v"
          "map_of (dict_update sig d0) ''dst'' = Some w"
          using vw by (simp_all add: signals_keep [OF sig] signal_keys_def)
        show thesis
        proof (cases "\<exists>sn dn. v = PStr sn \<and> w = PStr dn")
          case True
          then obtain sn dn where n: "v = PStr sn" "w = PStr dn" by blast
          from flyer_stage_decoded [OF l Inr len sig keep [unfolded n]] fs m
          have e: "d = dict_set ''LiftSide'' (PStr (lift_side_of (lower sn) (lower dn)))
                   (dict_update sig d0)" "ws = []"
            by simp_all
          show thesis
            by (rule decoded [OF hs m l Inr len sig vw [unfolded n] e])
        next
          case False
          from flyer_stage_unnamed [OF l Inr len sig lift_side_fails [OF keep False]] fs m
          have e: "d = dict_update sig d0" "ws = [FlyerDecodingError AttributeError]"
            by simp_all
          from False vw
          have "\<not> (\<exists>sn dn. map_of d0 ''source'' = Some (PStr sn) \<and>
                           map_of d0 ''dst'' = Some (PStr dn))"
            by simp
          then show thesis
            by (rule unnamed [OF hs m l Inr len sig _ e])
        qed
      qed
    qed
  qed
qed

lemma emitted_keeps_header:
  assumes "process_line S m line = Emitted d ws"
  shows "\<exists>d0. header_stage S m (tokens line) = Inr (tokens line ! 4, d0) \<and>
           (\<forall>k. k \<notin> set signal_keys \<longrightarrow> k \<noteq> ''LiftSide'' \<longrightarrow> map_of d k = map_of d0 k)"
  using assms
proof (cases rule: emitted_cases)
  case (decoded d0 b sig sn dn)
  have "map_of d k = map_of d0 k" if "k \<notin> set signal_keys" "k \<noteq> ''LiftSide''" for k
    using that by (simp add: decoded(9) map_of_dict_set signals_keep [OF decoded(6)])
  with decoded(1) show ?thesis by blast
next
  case (unnamed d0 b sig)
  have "map_of d k = map_of d0 k" if "k \<notin> set signal_keys" for k
    using that by (simp add: unnamed(8) signals_keep [OF unnamed(6)])
  with unnamed(1) show ?thesis by blast
next
  case plain
  then show ?thesis by blast
qed

text \<open>What a record of the decoding branch holds under the signal keys.\<close>

lemma decoded_lookup:
  assumes len: "20 \<le> length b" and sig: "flyer_signals b = Inr sig"
    and rng: "\<And>x. x \<in> set b \<Longrightarrow> 0 \<le> x \<and> x < 256"
    and d: "d = dict_set ''LiftSide'' l (dict_update sig d0) \<or> d = dict_update sig d0"
  shows "map_of d ''targetPosition'' = Some (scaled (b ! 0 * 256 + b ! 1))"
    and "map_of d ''presentPosition'' = Some (scaled (b ! 2 * 256 + b ! 3))"
    and "map_of d ''presentRPM'' = Some (PInt (b ! 4 * 256 + b ! 5))"
    and "map_of d ''appliedDuty'' = Some (PInt (b ! 6 * 256 + b ! 7))"
    and "map_of d ''FETtemp'' = Some (PInt (b ! 8))"
    and "map_of d ''MOTtemp'' = Some (PInt (b ! 9))"
    and "map_of d ''busCurrentADC'' = Some (PInt (b ! 10 * 256 + b ! 11))"
    and "map_of d ''busVoltageADC'' = Some (PInt (b ! 12 * 256 + b ! 13))"
    and "map_of d ''liftDirection'' = Some (PInt (b ! 14))"
    and "map_of d ''GBPresentPosition'' = Some (scaled (b ! 15 * 256 + b ! 16))"
    and "map_of d ''encPresentPosition'' = Some (scaled (b ! 17 * 256 + b ! 18))"
    and "map_of d ''usingPosition'' = Some (PInt (b ! 19))"
proof -
  have r: "0 \<le> b ! i \<and> b ! i < 256" if "i < 20" for i
    using that len by (intro rng nth_mem) simp
  have p: "push_bit 8 (b ! i) OR b ! j = b ! i * 256 + b ! j" if "j < 20" for i j
    using r [OF that] by (simp add: be_pair)
  note s = flyer_signals_ok [OF len, unfolded sig, simplified]
  have k: "map_of d k = map_of (dict_update sig d0) k" if "k \<noteq> ''LiftSide''" for k
    using d that by (auto simp: map_of_dict_set)
  show "map_of d ''targetPosition'' = Some (scaled (b ! 0 * 256 + b ! 1))"
    by (simp add: k s map_of_dict_update p)
  show "map_of d ''presentPosition'' = Some (scaled (b ! 2 * 256 + b ! 3))"
    by (simp add: k s map_of_dict_update p)
  show "map_of d ''presentRPM'' = Some (PInt (b ! 4 * 256 + b ! 5))"
    by (simp add: k s map_of_dict_update p)
  show "map_of d ''appliedDuty'' = Some (PInt (b ! 6 * 256 + b ! 7))"
    by (simp add: k s map_of_dict_update p)
  show "map_of d ''FETtemp'' = Some (PInt (b ! 8))"
    by (simp add: k s map_of_dict_update)
  show "map_of d ''MOTtemp'' = Some (PInt (b ! 9))"
    by (simp add: k s map_of_dict_update)
  show "map_of d ''busCurrentADC'' = Some (PInt (b ! 10 * 256 + b ! 11))"
    by (simp add: k s map_of_dict_update p)
  show "map_of d ''busVoltageADC'' = Some (PInt (b ! 12 * 256 + b ! 13))"
    by (simp add: k s map_of_dict_update p)
  show "map_of d ''liftDirection'' = Some (PInt (b ! 14))"
    by (simp add: k s map_of_dict_update)
  show "map_of d ''GBPresentPosition'' = Some (scaled (b ! 15 * 256 + b ! 16))"
    by (simp add: k s map_of_dict_update p)
  show "map_of d ''encPresentPosition'' = Some (scaled (b ! 17 * 256 + b ! 18))"
    by (simp add: k s map_of_dict_update p)
  show "map_of d ''usingPosition'' = Some (PInt (b ! 19))"
    by (simp add: k s map_of_dict_update)
qed

lemma emitted_decoded:
  assumes "process_line S FLYER line = Emitted d ws"
    and "40 \<le> length (tokens line ! 4)"
    and "bytes_fromhex (tokens line ! 4) = Inr b"
    and "20 \<le> length b"
  shows "\<exists>sig l d0. flyer_signals b = Inr sig \<and>
           (d = dict_set ''LiftSide'' l (dict_update sig d0) \<or> d = dict_update sig d0)"
  using assms(1)
proof (cases rule: emitted_cases)
  case (decoded d0 b' sig sn dn)
  with assms(3) have "flyer_signals b = Inr sig" by simp
  with decoded(9) show ?thesis by blast
next
  case (unnamed d0 b' sig)
  with assms(3) have "flyer_signals b = Inr sig" by simp
  with unnamed(8) show ?thesis by blast
next
  case plain
  with assms(2-4) have False by blast
  then show ?thesis ..
qed

section \<open>Claims on the payload decoder\<close>

text \<open>
  C1. A FLYER record whose payload token has at least 40 characters and decodes as hex to
  at least 20 bytes \<open>b\<close> carries the twelve signals, each read big-endian from its
  fixed offsets: the four positions are the 16-bit value divided by 100, the RPM, duty and
  ADC readings the 16-bit value itself, the temperatures, the direction and the usage flag
  a single byte.
\<close>

theorem flyer_payload_signals:
  assumes "process_line S FLYER line = Emitted d ws"
    and "40 \<le> length (tokens line ! 4)"
    and "bytes_fromhex (tokens line ! 4) = Inr b"
    and "20 \<le> length b"
  shows "map_of d ''targetPosition'' = Some (PFloat (real_of_int (b ! 0 * 256 + b ! 1) / 100)) \<and>
         map_of d ''presentPosition'' = Some (PFloat (real_of_int (b ! 2 * 256 + b ! 3) / 100)) \<and>
         map_of d ''presentRPM'' = Some (PInt (b ! 4 * 256 + b ! 5)) \<and>
         map_of d ''appliedDuty'' = Some (PInt (b ! 6 * 256 + b ! 7)) \<and>
         map_of d ''FETtemp'' = Some (PInt (b ! 8)) \<and>
         map_of d ''MOTtemp'' = Some (PInt (b ! 9)) \<and>
         map_of d ''busCurrentADC'' = Some (PInt (b ! 10 * 256 + b ! 11)) \<and>
         map_of d ''busVoltageADC'' = Some (PInt (b ! 12 * 256 + b ! 13)) \<and>
         map_of d ''liftDirection'' = Some (PInt (b ! 14)) \<and>
         map_of d ''GBPresentPosition'' = Some (PFloat (real_of_int (b ! 15 * 256 + b ! 16) / 100)) \<and>
         map_of d ''encPresentPosition'' = Some (PFloat (real_of_int (b ! 17 * 256 + b ! 18) / 100)) \<and>
         map_of d ''usingPosition'' = Some (PInt (b ! 19))"
proof -
  from emitted_decoded [OF assms] obtain sig l d0 where
    sig: "flyer_signals b = Inr sig" and
    d: "d = dict_set ''LiftSide'' l (dict_update sig d0) \<or> d = dict_update sig d0"
    by blast
  note v = decoded_lookup [OF assms(4) sig bytes_fromhex_range [OF assms(3)] d, unfolded scaled_def]
  show ?thesis
    by (simp only: v simp_thms)
qed

lemma telemetry_emitted:
  "process_line demo_schema FLYER telemetry_line =
     Emitted
      [(''date'', PStr ''2024-01-01''), (''time'', PStr ''12:00:00''),
       (''extID'', PStr ''0x010203''),
       (''hexData'', PStr ''0102030405060708090A0B0C0D0E0F1011121314''),
       (''msgType'', PStr ''Telemetry''), (''source'', PStr ''Right Motor''),
       (''dst'', PStr ''Controller''), (''targetPosition'', PFloat (129 / 50)),
       (''presentPosition'', PFloat (193 / 25)), (''presentRPM'', PInt 1286),
       (''appliedDuty'', PInt 1800), (''FETtemp'', PInt 9),
       (''MOTtemp'', PInt 10), (''busCurrentADC'', PInt 2828),
       (''busVoltageADC'', PInt 3342), (''liftDirection'', PInt 15),
       (''GBPresentPosition'', PFloat (4113 / 100)),
       (''encPresentPosition'', PFloat (4627 / 100)),
       (''usingPosition'', PInt 20), (''LiftSide'', PStr ''Right Lift'')]
      []"
  by code_simp

lemma telemetry_tokens:
  "tokens telemetry_line =
     [''[2024-01-01'', ''12:00:00]'', ''rcv'', ''0x010203'',
      ''0102030405060708090A0B0C0D0E0F1011121314'']"
  by code_simp

lemma telemetry_payload:
  "bytes_fromhex ''0102030405060708090A0B0C0D0E0F1011121314'' = Inr telemetry_bytes"
  by code_simp

theorem flyer_payload_signals_witness:
  "map_of (emitted_record (process_line demo_schema FLYER telemetry_line)) ''targetPosition''
     = Some (PFloat (258 / 100)) \<and>
   map_of (emitted_record (process_line demo_schema FLYER telemetry_line)) ''presentRPM''
     = Some (PInt 1286) \<and>
   map_of (emitted_record (process_line demo_schema FLYER telemetry_line)) ''usingPosition''
     = Some (PInt 20)"
  using flyer_payload_signals [OF telemetry_emitted, of telemetry_bytes]
  by (simp add: telemetry_tokens telemetry_payload telemetry_emitted telemetry_bytes_def)

lemma signal_values:
  assumes len: "20 \<le> length b" and sig: "flyer_signals b = Inr sig"
    and hex: "bytes_fromhex h = Inr b"
    and d: "d = dict_set ''LiftSide'' l (dict_update sig d0) \<or> d = dict_update sig d0"
  shows "20 \<le> length b \<and> (\<forall>i<20. 0 \<le> b ! i \<and> b ! i < 256) \<and>
            map_of d ''targetPosition'' = Some (scaled (b ! 0 * 256 + b ! 1)) \<and>
            map_of d ''presentPosition'' = Some (scaled (b ! 2 * 256 + b ! 3)) \<and>
            map_of d ''presentRPM'' = Some (PInt (b ! 4 * 256 + b ! 5)) \<and>
            map_of d ''appliedDuty'' = Some (PInt (b ! 6 * 256 + b ! 7)) \<and>
            map_of d ''FETtemp'' = Some (PInt (b ! 8)) \<and>
            map_of d ''MOTtemp'' = Some (PInt (b ! 9)) \<and>
            map_of d ''busCurrentADC'' = Some (PInt (b ! 10 * 256 + b ! 11)) \<and>
            map_of d ''busVoltageADC'' = Some (PInt (b ! 12 * 256 + b ! 13)) \<and>
            map_of d ''liftDirection'' = Some (PInt (b ! 14)) \<and>
            map_of d ''GBPresentPosition'' = Some (scaled (b ! 15 * 256 + b ! 16)) \<and>
            map_of d ''encPresentPosition'' = Some (scaled (b ! 17 * 256 + b ! 18)) \<and>
            map_of d ''usingPosition'' = Some (PInt (b ! 19))"
proof -
  have r: "\<forall>i<20. 0 \<le> b ! i \<and> b ! i < 256"
    using bytes_fromhex_range [OF hex] len by (auto intro!: nth_mem)
  note v = decoded_lookup [OF len sig bytes_fromhex_range [OF hex] d]
  show ?thesis
    using len r by (simp only: v simp_thms)
qed

lemma emitted_signals_cases:
  assumes "process_line S m line = Emitted d ws"
  shows "(\<forall>k. k \<notin> set header_keys \<longrightarrow> map_of d k = None) \<or>
         (\<exists>b. 20 \<le> length b \<and> (\<forall>i<20. 0 \<le> b ! i \<and> b ! i < 256) \<and>
            map_of d ''targetPosition'' = Some (scaled (b ! 0 * 256 + b ! 1)) \<and>
            map_of d ''presentPosition'' = Some (scaled (b ! 2 * 256 + b ! 3)) \<and>
            map_of d ''presentRPM'' = Some (PInt (b ! 4 * 256 + b ! 5)) \<and>
            map_of d ''appliedDuty'' = Some (PInt (b ! 6 * 256 + b ! 7)) \<and>
            map_of d ''FETtemp'' = Some (PInt (b ! 8)) \<and>
            map_of d ''MOTtemp'' = Some (PInt (b ! 9)) \<and>
            map_of d ''busCurrentADC'' = Some (PInt (b ! 10 * 256 + b ! 11)) \<and>
            map_of d ''busVoltageADC'' = Some (PInt (b ! 12 * 256 + b ! 13)) \<and>
            map_of d ''liftDirection'' = Some (PInt (b ! 14)) \<and>
            map_of d ''GBPresentPosition'' = Some (scaled (b ! 15 * 256 + b ! 16)) \<and>
            map_of d ''encPresentPosition'' = Some (scaled (b ! 17 * 256 + b ! 18)) \<and>
            map_of d ''usingPosition'' = Some (PInt (b ! 19)))"
  using assms
proof (cases rule: emitted_cases)
  case (decoded d0 b sig sn dn)
  from decoded(9)
  have dd: "d = dict_set ''LiftSide'' (PStr (lift_side_of (lower sn) (lower dn))) (dict_update sig d0) \<or>
            d = dict_update sig d0"
    by (rule disjI1)
  show ?thesis
    by (intro disjI2 exI [of _ b]) (rule signal_values [OF decoded(5,6,4) dd])
next
  case (unnamed d0 b sig)
  from unnamed(8)
  have dd: "d = dict_set ''LiftSide'' PNaN (dict_update sig d0) \<or> d = dict_update sig d0"
    by (rule disjI2)
  show ?thesis
    by (intro disjI2 exI [of _ b]) (rule signal_values [OF unnamed(5,6,4) dd])
next
  case plain
  from header_stage_keys [OF plain(1)]
  have "\<forall>k. k \<notin> set header_keys \<longrightarrow> map_of d k = None" by simp
  then show ?thesis by (rule disjI1)
qed

lemma pair_bound:
  fixes hi lo :: int
  assumes "0 \<le> hi \<and> hi < 256" and "0 \<le> lo \<and> lo < 256"
  shows "0 \<le> hi * 256 + lo \<and> hi * 256 + lo \<le> 65535"
  using assms by simp

lemma scaled_bound:
  fixes v :: int
  assumes "0 \<le> v \<and> v \<le> 65535"
  shows "\<exists>x. scaled v = PFloat x \<and> 0 \<le> x \<and> x \<le> 655.35"
proof -
  from assms have "0 \<le> real_of_int v" and "real_of_int v \<le> 65535" by simp_all
  then have "0 \<le> real_of_int v / 100 \<and> real_of_int v / 100 \<le> 655.35" by simp
  then show ?thesis unfolding scaled_def by blast
qed

text \<open>
  C10. Every decoded signal of an emitted record is unsigned and bounded: the single-byte
  fields lie in \<open>[0, 255]\<close>, the 16-bit fields in \<open>[0, 65535]\<close> and the scaled
  positions in \<open>[0, 655.35]\<close>; none is negative.
\<close>

theorem decoded_signals_bounded:
  assumes "process_line S m line = Emitted d ws"
  shows "(\<forall>k\<in>set [''FETtemp'', ''MOTtemp'', ''liftDirection'', ''usingPosition''].
            \<forall>v. map_of d k = Some v \<longrightarrow> (\<exists>n. v = PInt n \<and> 0 \<le> n \<and> n \<le> 255)) \<and>
         (\<forall>k\<in>set [''presentRPM'', ''appliedDuty'', ''busCurrentADC'', ''busVoltageADC''].
            \<forall>v. map_of d k = Some v \<longrightarrow> (\<exists>n. v = PInt n \<and> 0 \<le> n \<and> n \<le> 65535)) \<and>
         (\<forall>k\<in>set [''targetPosition'', ''presentPosition'', ''GBPresentPosition'',
                    ''encPresentPosition''].
            \<forall>v. map_of d k = Some v \<longrightarrow> (\<exists>x. v = PFloat x \<and> 0 \<le> x \<and> x \<le> 655.35))"
  using emitted_signals_cases [OF assms]
proof
  assume "\<forall>k. k \<notin> set header_keys \<longrightarrow> map_of d k = None"
  then show ?thesis by (simp add: header_keys_def)
next
  assume "\<exists>b. 20 \<le> length b \<and> (\<forall>i<20. 0 \<le> b ! i \<and> b ! i < 256) \<and>
            map_of d ''targetPosition'' = Some (scaled (b ! 0 * 256 + b ! 1)) \<and>
            map_of d ''presentPosition'' = Some (scaled (b ! 2 * 256 + b ! 3)) \<and>
            map_of d ''presentRPM'' = Some (PInt (b ! 4 * 256 + b ! 5)) \<and>
            map_of d ''appliedDuty'' = Some (PInt (b ! 6 * 256 + b ! 7)) \<and>
            map_of d ''FETtemp'' = Some (PInt (b ! 8)) \<and>
            map_of d ''MOTtemp'' = Some (PInt (b ! 9)) \<and>
            map_of d ''busCurrentADC'' = Some (PInt (b ! 10 * 256 + b ! 11)) \<and>
            map_of d ''busVoltageADC'' = Some (PInt (b ! 12 * 256 + b ! 13)) \<and>
            map_of d ''liftDirection'' = Some (PInt (b ! 14)) \<and>
            map_of d ''GBPresentPosition'' = Some (scaled (b ! 15 * 256 + b ! 16)) \<and>
            map_of d ''encPresentPosition'' = Some (scaled (b ! 17 * 256 + b ! 18)) \<and>
            map_of d ''usingPosition'' = Some (PInt (b ! 19))"
  then obtain b where r: "\<forall>i<20. 0 \<le> b ! i \<and> b ! i < (256::int)"
    and v: "map_of d ''targetPosition'' = Some (scaled (b ! 0 * 256 + b ! 1))"
      "map_of d ''presentPosition'' = Some (scaled (b ! 2 * 256 + b ! 3))"
      "map_of d ''presentRPM'' = Some (PInt (b ! 4 * 256 + b ! 5))"
      "map_of d ''appliedDuty'' = Some (PInt (b ! 6 * 256 + b ! 7))"
      "map_of d ''FETtemp'' = Some (PInt (b ! 8))"
      "map_of d ''MOTtemp'' = Some (PInt (b ! 9))"
      "map_of d ''busCurrentADC'' = Some (PInt (b ! 10 * 256 + b ! 11))"
      "map_of d ''busVoltageADC'' = Some (PInt (b ! 12 * 256 + b ! 13))"
      "map_of d ''liftDirection'' = Some (PInt (b ! 14))"
      "map_of d ''GBPresentPosition'' = Some (scaled (b ! 15 * 256 + b ! 16))"
      "map_of d ''encPresentPosition'' = Some (scaled (b ! 17 * 256 + b ! 18))"
      "map_of d ''usingPosition'' = Some (PInt (b ! 19))"
    by blast
  have r1: "0 \<le> b ! i \<and> b ! i < 256" if "i < 20" for i using r that by blast
  have one: "0 \<le> b ! i \<and> b ! i \<le> 255" if "i < 20" for i using r1 [OF that] by simp
  have two: "0 \<le> b ! i * 256 + b ! j \<and> b ! i * 256 + b ! j \<le> 65535" if "i < 20" "j < 20" for i j
    by (rule pair_bound [OF r1 [OF that(1)] r1 [OF that(2)]])
  have a: "\<forall>k\<in>set [''FETtemp'', ''MOTtemp'', ''liftDirection'', ''usingPosition''].
            \<forall>v. map_of d k = Some v \<longrightarrow> (\<exists>n. v = PInt n \<and> 0 \<le> n \<and> n \<le> 255)"
    using one [of 8] one [of 9] one [of 14] one [of 19] by (auto simp: v)
  have b: "\<forall>k\<in>set [''presentRPM'', ''appliedDuty'', ''busCurrentADC'', ''busVoltageADC''].
            \<forall>v. map_of d k = Some v \<longrightarrow> (\<exists>n. v = PInt n \<and> 0 \<le> n \<and> n \<le> 65535)"
    using two [of 4 5] two [of 6 7] two [of 10 11] two [of 12 13] by (auto simp: v)
  have c: "\<forall>k\<in>set [''targetPosition'', ''presentPosition'', ''GBPresentPosition'',
                    ''encPresentPosition''].
            \<forall>v. map_of d k = Some v \<longrightarrow> (\<exists>x. v = PFloat x \<and> 0 \<le> x \<and> x \<le> 655.35)"
    using scaled_bound [OF two [of 0 1]] scaled_bound [OF two [of 2 3]]
      scaled_bound [OF two [of 15 16]] scaled_bound [OF two [of 17 18]]
    by (auto simp: v)
  from a b c show ?thesis by blast
qed

theorem decoded_signals_bounded_witness:
  "(\<exists>n. map_of (emitted_record (process_line demo_schema FLYER telemetry_line)) ''FETtemp''
           = Some (PInt n) \<and> 0 \<le> n \<and> n \<le> 255) \<and>
   (\<exists>n. map_of (emitted_record (process_line demo_schema FLYER telemetry_line)) ''busVoltageADC''
           = Some (PInt n) \<and> 0 \<le> n \<and> n \<le> 65535) \<and>
   (\<exists>x. map_of (emitted_record (process_line demo_schema FLYER telemetry_line)) ''encPresentPosition''
           = Some (PFloat x) \<and> 0 \<le> x \<and> x \<le> 655.35)"
  using decoded_signals_bounded [OF telemetry_emitted]
  by (simp add: telemetry_emitted)

section \<open>The lift side\<close>

lemma starts_with_iff: "starts_with p s \<longleftrightarrow> (\<exists>suf. s = p @ suf)"
  by (induction p s rule: starts_with.induct) auto

lemma str_contains_iff: "str_contains sub s \<longleftrightarrow> (\<exists>pre suf. s = pre @ sub @ suf)"
proof (induction s)
  case Nil
  then show ?case by (simp add: starts_with_iff)
next
  case (Cons c cs)
  show ?case
  proof
    assume "str_contains sub (c # cs)"
    then consider "starts_with sub (c # cs)" | "str_contains sub cs" by auto
    then show "\<exists>pre suf. c # cs = pre @ sub @ suf"
    proof cases
      case 1
      then obtain suf where "c # cs = sub @ suf" by (auto simp: starts_with_iff)
      then have "c # cs = [] @ sub @ suf" by simp
      then show ?thesis by blast
    next
      case 2
      with Cons.IH obtain pre suf where "cs = pre @ sub @ suf" by blast
      then have "c # cs = (c # pre) @ sub @ suf" by simp
      then show ?thesis by blast
    qed
  next
    assume "\<exists>pre suf. c # cs = pre @ sub @ suf"
    then obtain pre suf where e: "c # cs = pre @ sub @ suf" by blast
    show "str_contains sub (c # cs)"
    proof (cases pre)
      case Nil
      with e have "starts_with sub (c # cs)" by (auto simp: starts_with_iff)
      then show ?thesis by simp
    next
      case (Cons x pre')
      with e have "cs = pre' @ sub @ suf" by simp
      with Cons.IH have "str_contains sub cs" by blast
      then show ?thesis by simp
    qed
  qed
qed

lemma get_lower_option:
  "map_of d k = map_option PStr s \<Longrightarrow>
     get_lower d k = Inr (lower (case s of None \<Rightarrow> [] | Some x \<Rightarrow> x))"
  by (cases s) (simp_all add: get_lower_absent get_lower_str lower_def)

text \<open>
  C8. The lift side is derived from the source and destination names of the dictionary,
  an absent name counting as the empty string. Both are lower-cased; if either contains
  \<open>right\<close> the result is ``Right Lift'', otherwise if either contains \<open>left\<close> it is
  ``Left Lift'', otherwise ``Unknown Lift''. Containment means occurrence as a contiguous
  block of the lower-cased name.
\<close>

theorem lift_side_derivation:
  assumes "map_of d ''source'' = map_option PStr src"
    and "map_of d ''dst'' = map_option PStr dst"
  shows "lift_side d =
     Inr (dict_set ''LiftSide''
        (PStr (if (\<exists>p q. lower (case src of None \<Rightarrow> [] | Some x \<Rightarrow> x) = p @ ''right'' @ q) \<or>
                  (\<exists>p q. lower (case dst of None \<Rightarrow> [] | Some x \<Rightarrow> x) = p @ ''right'' @ q)
               then ''Right Lift''
               else if (\<exists>p q. lower (case src of None \<Rightarrow> [] | Some x \<Rightarrow> x) = p @ ''left'' @ q) \<or>
                       (\<exists>p q. lower (case dst of None \<Rightarrow> [] | Some x \<Rightarrow> x) = p @ ''left'' @ q)
               then ''Left Lift''
               else ''Unknown Lift'')) d)"
  unfolding lift_side_def get_lower_option [OF assms(1)] get_lower_option [OF assms(2)]
    ebind_Inr lift_side_of_def str_contains_iff ..

theorem lift_side_derivation_witness:
  "lift_side [(''source'', PStr ''Right Motor''), (''dst'', PStr ''Controller'')] =
     Inr [(''source'', PStr ''Right Motor''), (''dst'', PStr ''Controller''),
          (''LiftSide'', PStr ''Right Lift'')] \<and>
   lift_side [(''source'', PStr ''left_sensor'')] =
     Inr [(''source'', PStr ''left_sensor''), (''LiftSide'', PStr ''Left Lift'')] \<and>
   lift_side [] = Inr [(''LiftSide'', PStr ''Unknown Lift'')]"
  using lift_side_derivation [of "[(''source'', PStr ''Right Motor''), (''dst'', PStr ''Controller'')]"
          "Some ''Right Motor''" "Some ''Controller''", unfolded str_contains_iff [symmetric]]
    lift_side_derivation [of "[(''source'', PStr ''left_sensor'')]" "Some ''left_sensor''" None,
          unfolded str_contains_iff [symmetric]]
    lift_side_derivation [of "[]" None None, unfolded str_contains_iff [symmetric]]
  by (simp add: lower_def lower_char_def dict_set_def)

section \<open>Claims on emitted records\<close>

lemma carding_telemetry_emitted:
  "process_line demo_schema CARDING telemetry_line =
     Emitted
      [(''date'', PStr ''2024-01-01''), (''time'', PStr ''12:00:00''),
       (''extID'', PStr ''0x010203''),
       (''hexData'', PStr ''0102030405060708090A0B0C0D0E0F1011121314''),
       (''msgType'', PStr ''Telemetry''), (''source'', PStr ''Right Motor''),
       (''dst'', PStr ''Controller'')]
      []"
  by code_simp

text \<open>
  C5, as the script has it. The lift side is computed inside the decoding branch only, and
  after the signals: an emitted record carries \<open>LiftSide\<close> exactly when the machine is
  FLYER, the payload token has at least 40 characters, it decodes to at least 20 bytes and
  the source and destination names of the record are both text; the value is then the
  category of these two names. Where the payload was decoded and a name is no text (an
  empty or numeric cell of the address table), the record is emitted without
  \<open>LiftSide\<close> and the AttributeError is recorded as a warning.
\<close>

theorem category_tag_only_when_decoded:
  assumes "process_line S m line = Emitted d ws"
  shows "(map_of d ''LiftSide'' \<noteq> None \<longleftrightarrow>
            m = FLYER \<and> 40 \<le> length (tokens line ! 4) \<and>
            (\<exists>b. bytes_fromhex (tokens line ! 4) = Inr b \<and> 20 \<le> length b) \<and>
            (\<exists>sn dn. map_of d ''source'' = Some (PStr sn) \<and> map_of d ''dst'' = Some (PStr dn))) \<and>
         (\<forall>v. map_of d ''LiftSide'' = Some v \<longrightarrow>
            (\<exists>sn dn. map_of d ''source'' = Some (PStr sn) \<and> map_of d ''dst'' = Some (PStr dn) \<and>
               v = PStr (lift_side_of (lower sn) (lower dn)))) \<and>
         (m = FLYER \<and> 40 \<le> length (tokens line ! 4) \<and>
          (\<exists>b. bytes_fromhex (tokens line ! 4) = Inr b \<and> 20 \<le> length b) \<and>
          \<not> (\<exists>sn dn. map_of d ''source'' = Some (PStr sn) \<and> map_of d ''dst'' = Some (PStr dn)) \<longrightarrow>
            ws = [FlyerDecodingError AttributeError])"
  using assms
proof (cases rule: emitted_cases)
  case (decoded d0 b sig sn dn)
  have n: "map_of d ''source'' = Some (PStr sn)" "map_of d ''dst'' = Some (PStr dn)"
    by (simp_all add: decoded(9) map_of_dict_set signals_keep [OF decoded(6)] signal_keys_def
        decoded(7,8))
  have l: "map_of d ''LiftSide'' = Some (PStr (lift_side_of (lower sn) (lower dn)))"
    by (simp add: decoded(9) map_of_dict_set)
  have g: "m = FLYER \<and> 40 \<le> length (tokens line ! 4) \<and>
            (\<exists>b. bytes_fromhex (tokens line ! 4) = Inr b \<and> 20 \<le> length b)"
    using decoded(2-5) by blast
  from n l g show ?thesis by simp
next
  case (unnamed d0 b sig)
  have s: "map_of d ''source'' = map_of d0 ''source''" "map_of d ''dst'' = map_of d0 ''dst''"
    "map_of d ''LiftSide'' = map_of d0 ''LiftSide''"
    by (simp_all add: unnamed(8) signals_keep [OF unnamed(6)] signal_keys_def)
  have "map_of d0 ''LiftSide'' = None"
    by (rule header_stage_keys [OF unnamed(1)]) (simp add: header_keys_def)
  with s have l: "map_of d ''LiftSide'' = None" by simp
  from unnamed(7) s
  have n: "\<not> (\<exists>sn dn. map_of d ''source'' = Some (PStr sn) \<and> map_of d ''dst'' = Some (PStr dn))"
    by simp
  from l n unnamed(9) show ?thesis by simp
next
  case plain
  have "map_of d ''LiftSide'' = None"
    by (rule header_stage_keys [OF plain(1)]) (simp add: header_keys_def)
  with plain(2) show ?thesis by auto
qed

lemma telemetry_payload_token:
  "40 \<le> length (tokens telemetry_line ! 4)"
  "bytes_fromhex (tokens telemetry_line ! 4) = Inr telemetry_bytes"
  "20 \<le> length telemetry_bytes"
  by code_simp+

lemma empty_name_emitted:
  "process_line empty_name_schema FLYER telemetry_line =
     Emitted (emitted_record (process_line empty_name_schema FLYER telemetry_line))
       [FlyerDecodingError AttributeError]"
  "map_of (emitted_record (process_line empty_name_schema FLYER telemetry_line)) ''source'' =
     Some PNaN"
  "map_of (emitted_record (process_line empty_name_schema FLYER telemetry_line)) ''usingPosition'' =
     Some (PInt 20)"
  by code_simp+

theorem category_tag_only_when_decoded_witness:
  "map_of (emitted_record (process_line demo_schema FLYER telemetry_line)) ''LiftSide'' \<noteq> None \<and>
   map_of (emitted_record (process_line demo_schema CARDING telemetry_line)) ''LiftSide'' = None \<and>
   map_of (emitted_record (process_line empty_name_schema FLYER telemetry_line)) ''LiftSide'' = None"
proof -
  have t: "map_of (emitted_record (process_line demo_schema FLYER telemetry_line)) ''source'' =
             Some (PStr ''Right Motor'')"
    "map_of (emitted_record (process_line demo_schema FLYER telemetry_line)) ''dst'' =
             Some (PStr ''Controller'')"
    by (simp_all add: telemetry_emitted)
  have "\<exists>b. bytes_fromhex (tokens telemetry_line ! 4) = Inr b \<and> 20 \<le> length b"
    using telemetry_payload_token(2,3) by blast
  with category_tag_only_when_decoded [OF telemetry_emitted, THEN conjunct1]
    telemetry_payload_token(1) t
  have "map_of (emitted_record (process_line demo_schema FLYER telemetry_line)) ''LiftSide'' \<noteq> None"
    unfolding telemetry_emitted outcome.sel by blast
  moreover from category_tag_only_when_decoded [OF carding_telemetry_emitted, THEN conjunct1]
  have "map_of (emitted_record (process_line demo_schema CARDING telemetry_line)) ''LiftSide'' = None"
    unfolding carding_telemetry_emitted outcome.sel by blast
  moreover from category_tag_only_when_decoded [OF empty_name_emitted(1), THEN conjunct1]
    empty_name_emitted(2)
  have "map_of (emitted_record (process_line empty_name_schema FLYER telemetry_line)) ''LiftSide'' = None"
    by auto
  ultimately show ?thesis by (intro conjI)
qed

text \<open>
  C5 as stated fails: under CARDING the line of the example is emitted with both names
  resolved and carries no \<open>LiftSide\<close>.
\<close>

theorem category_tag_counterexample:
  "process_line demo_schema CARDING telemetry_line =
     Emitted
      [(''date'', PStr ''2024-01-01''), (''time'', PStr ''12:00:00''),
       (''extID'', PStr ''0x010203''),
       (''hexData'', PStr ''0102030405060708090A0B0C0D0E0F1011121314''),
       (''msgType'', PStr ''Telemetry''), (''source'', PStr ''Right Motor''),
       (''dst'', PStr ''Controller'')]
      [] \<and>
   map_of (emitted_record (process_line demo_schema CARDING telemetry_line)) ''LiftSide'' = None"
  by (simp add: carding_telemetry_emitted)

lemma short_payload_emitted:
  "process_line demo_schema FLYER short_payload_line =
     Emitted
      [(''date'', PStr ''2024-01-01''), (''time'', PStr ''12:00:05''),
       (''extID'', PStr ''0x010203''), (''hexData'', PStr ''0102030405''),
       (''msgType'', PStr ''Telemetry''), (''source'', PStr ''Right Motor''),
       (''dst'', PStr ''Controller'')]
      []"
  by code_simp

lemma short_payload_token:
  "bytes_fromhex (tokens short_payload_line ! 4) = Inr [1, 2, 3, 4, 5]"
  by code_simp

lemma short_payload_run:
  "warnings (decode_log demo_schema FLYER [short_payload_line]) = []"
  by code_simp

lemma odd_payload_emitted:
  "process_line demo_schema FLYER odd_payload_line =
     Emitted
      [(''date'', PStr ''2024-01-01''), (''time'', PStr ''12:00:06''),
       (''extID'', PStr ''0x010203''),
       (''hexData'', PStr ''0102030405060708090A0B0C0D0E0F10111213141''),
       (''msgType'', PStr ''Telemetry''), (''source'', PStr ''Right Motor''),
       (''dst'', PStr ''Controller'')]
      [FlyerDecodingError ValueError]"
  by code_simp

lemma odd_payload_token:
  "40 \<le> length (tokens odd_payload_line ! 4)"
  "bytes_fromhex (tokens odd_payload_line ! 4) = Inl ValueError"
  by code_simp+

text \<open>
  C6, as the script has it. An emitted record whose payload token fails hex decoding, or
  decodes to fewer than 20 bytes, is the record of the header stage: the seven header
  fields are present and nothing outside the header keys is. A warning is recorded when
  the decoding was tried, that is, for FLYER and a payload token of at least 40
  characters; a shorter token or another machine skips the decoding silently.
\<close>

theorem undecodable_payload_keeps_header:
  assumes "process_line S m line = Emitted d ws"
    and "\<forall>b. bytes_fromhex (tokens line ! 4) = Inr b \<longrightarrow> length b < 20"
  shows "header_stage S m (tokens line) = Inr (tokens line ! 4, d) \<and>
         (\<forall>k\<in>set [''date'', ''time'', ''extID'', ''hexData'', ''msgType'', ''source'', ''dst''].
            map_of d k \<noteq> None) \<and>
         (\<forall>k. k \<notin> set header_keys \<longrightarrow> map_of d k = None) \<and>
         ws = (if m = FLYER \<and> 40 \<le> length (tokens line ! 4)
               then [FlyerDecodingError
                       (case bytes_fromhex (tokens line ! 4) of
                          Inl e \<Rightarrow> ValueError | Inr b \<Rightarrow> IndexError)]
               else [])"
  using assms(1)
proof (cases rule: emitted_cases)
  case (decoded d0 b sig sn dn)
  with assms(2) have False by fastforce
  then show ?thesis ..
next
  case (unnamed d0 b sig)
  with assms(2) have False by fastforce
  then show ?thesis ..
next
  case plain
  from header_stage_fields [OF plain(1)]
  have "\<forall>k\<in>set [''date'', ''time'', ''extID'', ''hexData'', ''msgType'', ''source'', ''dst''].
            map_of d k \<noteq> None"
    by auto
  moreover have "\<forall>k. k \<notin> set header_keys \<longrightarrow> map_of d k = None"
    using header_stage_keys [OF plain(1)] by blast
  ultimately show ?thesis using plain(1,3) by blast
qed

theorem undecodable_payload_keeps_header_witness:
  "header_stage demo_schema FLYER (tokens short_payload_line) =
     Inr (tokens short_payload_line ! 4,
          [(''date'', PStr ''2024-01-01''), (''time'', PStr ''12:00:05''),
           (''extID'', PStr ''0x010203''), (''hexData'', PStr ''0102030405''),
           (''msgType'', PStr ''Telemetry''), (''source'', PStr ''Right Motor''),
           (''dst'', PStr ''Controller'')]) \<and>
   header_stage demo_schema FLYER (tokens odd_payload_line) =
     Inr (tokens odd_payload_line ! 4,
          [(''date'', PStr ''2024-01-01''), (''time'', PStr ''12:00:06''),
           (''extID'', PStr ''0x010203''),
           (''hexData'', PStr ''0102030405060708090A0B0C0D0E0F10111213141''),
           (''msgType'', PStr ''Telemetry''), (''source'', PStr ''Right Motor''),
           (''dst'', PStr ''Controller'')])"
proof -
  have s: "\<forall>b. bytes_fromhex (tokens short_payload_line ! 4) = Inr b \<longrightarrow> length b < 20"
    unfolding short_payload_token by simp
  have o: "\<forall>b. bytes_fromhex (tokens odd_payload_line ! 4) = Inr b \<longrightarrow> length b < 20"
    unfolding odd_payload_token by simp
  show ?thesis
    by (rule conjI)
       (rule undecodable_payload_keeps_header [OF short_payload_emitted s, THEN conjunct1],
        rule undecodable_payload_keeps_header [OF odd_payload_emitted o, THEN conjunct1])
qed

text \<open>
  C6 as stated fails: a FLYER line with a payload of 10 hex characters (5 bytes) is
  emitted with its header fields and no warning is recorded for it.
\<close>

theorem short_payload_counterexample:
  "bytes_fromhex (tokens short_payload_line ! 4) = Inr [1, 2, 3, 4, 5] \<and>
   process_line demo_schema FLYER short_payload_line =
     Emitted
      [(''date'', PStr ''2024-01-01''), (''time'', PStr ''12:00:05''),
       (''extID'', PStr ''0x010203''), (''hexData'', PStr ''0102030405''),
       (''msgType'', PStr ''Telemetry''), (''source'', PStr ''Right Motor''),
       (''dst'', PStr ''Controller'')]
      [] \<and>
   warnings (decode_log demo_schema FLYER [short_payload_line]) = []"
  using short_payload_token short_payload_emitted short_payload_run by (intro conjI)

section \<open>Claims on lookups and dropped lines\<close>

lemma header_stage_missing_code:
  assumes "4 < length splits"
    and "functionIDs S (ext_fID (splits ! 3)) = None \<or>
         machineIDs S m (ext_source (splits ! 3)) = None \<or>
         machineIDs S m (ext_dst (splits ! 3)) = None"
  shows "\<exists>k. header_stage S m splits = Inl (KeyError (PStr k))"
proof -
  from assms(1) have ix: "py_index splits 0 = Inr (splits ! 0)" "py_index splits 1 = Inr (splits ! 1)"
    "py_index splits 3 = Inr (splits ! 3)" "py_index splits 4 = Inr (splits ! 4)"
    by (auto simp: py_index_def)
  show ?thesis
  proof (cases "functionIDs S (ext_fID (splits ! 3))")
    case None
    then show ?thesis
      unfolding header_stage_def ix ebind_Inr
      by (simp add: ebind_Inr ebind_Inl loc_def)
  next
    case (Some mt)
    note f = this
    show ?thesis
    proof (cases "machineIDs S m (ext_source (splits ! 3))")
      case None
      with f show ?thesis
        unfolding header_stage_def ix ebind_Inr
        by (simp add: ebind_Inr ebind_Inl loc_def)
    next
      case (Some sn)
      with f assms(2) have "machineIDs S m (ext_dst (splits ! 3)) = None" by simp
      with f Some show ?thesis
        unfolding header_stage_def ix ebind_Inr
        by (simp add: ebind_Inr ebind_Inl loc_def)
    qed
  qed
qed

lemma decode_lines_dropped:
  assumes "process_line S m line = Dropped e"
  shows "decode_lines S m (line # rest) st =
           decode_lines S m rest (st\<lparr>warnings := warnings st @ [LineParsingError e]\<rparr>)"
  using assms by (simp add: step_def)

text \<open>
  C2, as the script has it. On a candidate line with at least five tokens, a function,
  source or destination code that its table does not hold raises a KeyError in the line
  body. The handler of the line catches it: the line leaves a warning and no record, and
  the loop goes on with the next line.
\<close>

theorem unknown_code_drops_line:
  assumes "''rcv'' \<in> set (tokens line)" and "4 < length (tokens line)"
    and "functionIDs S (ext_fID (tokens line ! 3)) = None \<or>
         machineIDs S m (ext_source (tokens line ! 3)) = None \<or>
         machineIDs S m (ext_dst (tokens line ! 3)) = None"
  shows "\<exists>k. process_line S m line = Dropped (KeyError (PStr k)) \<and>
             decode_lines S m (line # rest) st =
               decode_lines S m rest
                 (st\<lparr>warnings := warnings st @ [LineParsingError (KeyError (PStr k))]\<rparr>)"
proof -
  from header_stage_missing_code [OF assms(2,3)] obtain k where
    "header_stage S m (tokens line) = Inl (KeyError (PStr k))" by blast
  from process_line_dropped [OF assms(1) this]
  have d: "process_line S m line = Dropped (KeyError (PStr k))" .
  from d decode_lines_dropped [OF d] show ?thesis by blast
qed

lemma unknown_function_tokens:
  "''rcv'' \<in> set (tokens unknown_function_line)"
  "4 < length (tokens unknown_function_line)"
  "functionIDs demo_schema (ext_fID (tokens unknown_function_line ! 3)) = None"
  by code_simp+

lemma unknown_function_dropped:
  "process_line demo_schema FLYER unknown_function_line = Dropped (KeyError (PStr ''99''))"
  by code_simp

lemma unknown_function_run:
  "allDicts (decode_log demo_schema FLYER [unknown_function_line]) = []"
  by code_simp

theorem unknown_code_drops_line_witness:
  "\<exists>k. process_line demo_schema FLYER unknown_function_line = Dropped (KeyError (PStr k)) \<and>
       decode_lines demo_schema FLYER [unknown_function_line, telemetry_line]
          \<lparr>allDicts = [], warnings = []\<rparr> =
       decode_lines demo_schema FLYER [telemetry_line]
          \<lparr>allDicts = [], warnings = [LineParsingError (KeyError (PStr k))]\<rparr>"
  using unknown_code_drops_line [OF unknown_function_tokens(1,2) disjI1 [OF unknown_function_tokens(3)],
      of FLYER "[telemetry_line]" "\<lparr>allDicts = [], warnings = []\<rparr>"]
  by simp

text \<open>
  C2 as stated fails: a line whose function code \<open>99\<close> is not in the function table is
  dropped, so the run over this line alone yields no record.
\<close>

theorem unknown_code_counterexample:
  "functionIDs demo_schema (ext_fID (tokens unknown_function_line ! 3)) = None \<and>
   process_line demo_schema FLYER unknown_function_line = Dropped (KeyError (PStr ''99'')) \<and>
   allDicts (decode_log demo_schema FLYER [unknown_function_line]) = []"
  using unknown_function_tokens(3) unknown_function_dropped unknown_function_run by (intro conjI)

lemma py_int_error: "py_int s = Inl e \<Longrightarrow> e = ValueError"
  by (auto simp: py_int_def Let_def split: list.splits if_splits option.splits)

lemma msg_branch_other:
  "mt \<noteq> PStr ''Operation'' \<Longrightarrow> mt \<noteq> PStr ''Error'' \<Longrightarrow> msg_branch S mt h d = Inr d"
  by (simp add: msg_branch_def)

lemma msg_branch_error_ok:
  "py_int h = Inr n \<Longrightarrow> Errors S n = Some name \<Longrightarrow>
     msg_branch S (PStr ''Error'') h d = Inr (dict_set ''ErrorCommand'' name d)"
  by (simp add: msg_branch_def ebind_Inr loc_def)

lemma msg_branch_error_unknown:
  "py_int h = Inr n \<Longrightarrow> Errors S n = None \<Longrightarrow>
     msg_branch S (PStr ''Error'') h d = Inl (KeyError (PInt n))"
  by (simp add: msg_branch_def ebind_Inr ebind_Inl loc_def)

lemma msg_branch_error_invalid:
  "py_int h = Inl e \<Longrightarrow> msg_branch S (PStr ''Error'') h d = Inl ValueError"
  using py_int_error [of h e] by (simp add: msg_branch_def ebind_Inl)

lemma msg_branch_operation_ok:
  "Operations S h = Some name \<Longrightarrow>
     msg_branch S (PStr ''Operation'') h d = Inr (dict_set ''OperationCommand'' name d)"
  by (simp add: msg_branch_def ebind_Inr loc_def)

lemma msg_branch_succeeds_iff:
  "(\<exists>d. msg_branch S mt h d0 = Inr d) \<longleftrightarrow>
     (mt = PStr ''Operation'' \<longrightarrow> Operations S h \<noteq> None) \<and>
     (mt = PStr ''Error'' \<longrightarrow> (\<exists>n. py_int h = Inr n \<and> Errors S n \<noteq> None))"
proof
  assume "\<exists>d. msg_branch S mt h d0 = Inr d"
  then obtain d where "msg_branch S mt h d0 = Inr d" by blast
  from msg_branch_success [OF this]
  show "(mt = PStr ''Operation'' \<longrightarrow> Operations S h \<noteq> None) \<and>
     (mt = PStr ''Error'' \<longrightarrow> (\<exists>n. py_int h = Inr n \<and> Errors S n \<noteq> None))"
    by auto
next
  assume a: "(mt = PStr ''Operation'' \<longrightarrow> Operations S h \<noteq> None) \<and>
     (mt = PStr ''Error'' \<longrightarrow> (\<exists>n. py_int h = Inr n \<and> Errors S n \<noteq> None))"
  consider "mt = PStr ''Operation''" | "mt = PStr ''Error''"
    | "mt \<noteq> PStr ''Operation''" "mt \<noteq> PStr ''Error''"
    by blast
  then show "\<exists>d. msg_branch S mt h d0 = Inr d"
  proof cases
    case 1
    with a obtain name where "Operations S h = Some name" by auto
    from msg_branch_operation_ok [OF this] 1 show ?thesis by blast
  next
    case 2
    with a obtain n name where "py_int h = Inr n" "Errors S n = Some name" by auto
    from msg_branch_error_ok [OF this] 2 show ?thesis by blast
  next
    case 3
    from msg_branch_other [OF 3] show ?thesis by blast
  qed
qed

lemma loc_error: "loc table sh key = Inl e \<Longrightarrow> \<exists>k. e = KeyError k"
  by (auto simp: loc_def split: option.splits)

lemma msg_branch_error:
  "msg_branch S mt h d = Inl e \<Longrightarrow> (\<exists>k. e = KeyError k) \<or> e = ValueError"
  unfolding msg_branch_def
  by (auto split: if_splits dest!: ebind_error dest: loc_error py_int_error)

lemma header_stage_error:
  assumes "4 < length splits" and "header_stage S m splits = Inl e"
  shows "(\<exists>k. e = KeyError k) \<or> e = ValueError"
proof -
  from assms(1) have ix: "py_index splits 0 = Inr (splits ! 0)" "py_index splits 1 = Inr (splits ! 1)"
    "py_index splits 3 = Inr (splits ! 3)" "py_index splits 4 = Inr (splits ! 4)"
    by (auto simp: py_index_def)
  from assms(2) show ?thesis
    unfolding header_stage_def ix ebind_Inr
    by (auto dest!: ebind_error dest: loc_error msg_branch_error)
qed

lemma process_line_Dropped_inv:
  "process_line S m line = Dropped e \<Longrightarrow> header_stage S m (tokens line) = Inl e"
  by (auto simp: process_line_def Let_def split: if_splits sum.splits prod.splits)

lemma candidate_emitted:
  assumes "''rcv'' \<in> set (tokens line)" and "4 < length (tokens line)"
    and "functionIDs S (ext_fID (tokens line ! 3)) = Some mt"
    and "machineIDs S m (ext_source (tokens line ! 3)) = Some sn"
    and "machineIDs S m (ext_dst (tokens line ! 3)) = Some dn"
    and "msg_branch S mt (tokens line ! 4)
        [(''date'', PStr (py_slice (Some 1) None (tokens line ! 0))),
         (''time'', PStr (py_slice None (Some (- 1)) (tokens line ! 1))),
         (''extID'', PStr (tokens line ! 3)),
         (''hexData'', PStr (tokens line ! 4)),
         (''msgType'', mt), (''source'', sn), (''dst'', dn)] = Inr d0"
  shows "\<exists>d ws. process_line S m line = Emitted d ws \<and>
           (\<forall>k. k \<notin> set signal_keys \<longrightarrow> k \<noteq> ''LiftSide'' \<longrightarrow> map_of d k = map_of d0 k)"
proof -
  have hs: "header_stage S m (tokens line) = Inr (tokens line ! 4, d0)"
    unfolding header_stage_eq [OF assms(2-5)] assms(6) ebind_Inr ..
  from process_line_emitted [OF assms(1) hs] obtain d ws where
    e: "process_line S m line = Emitted d ws" by blast
  from emitted_keeps_header [OF e] hs
  have "\<forall>k. k \<notin> set signal_keys \<longrightarrow> k \<noteq> ''LiftSide'' \<longrightarrow> map_of d k = map_of d0 k"
    by simp
  with e show ?thesis by blast
qed

lemma header_stage_unknown_function:
  assumes "4 < length splits" and "functionIDs S (ext_fID (splits ! 3)) = None"
  shows "header_stage S m splits = Inl (KeyError (PStr (ext_fID (splits ! 3))))"
proof -
  from assms(1) have ix: "py_index splits 0 = Inr (splits ! 0)" "py_index splits 1 = Inr (splits ! 1)"
    "py_index splits 3 = Inr (splits ! 3)" "py_index splits 4 = Inr (splits ! 4)"
    by (auto simp: py_index_def)
  from assms(2) show ?thesis
    unfolding header_stage_def ix ebind_Inr
    by (simp add: ebind_Inl loc_def)
qed

lemma candidate_emitted_iff:
  assumes "''rcv'' \<in> set (tokens line)" and "4 < length (tokens line)"
  shows "(\<exists>d ws. process_line S m line = Emitted d ws) \<longleftrightarrow>
     (\<exists>mt sn dn.
        functionIDs S (ext_fID (tokens line ! 3)) = Some mt \<and>
        machineIDs S m (ext_source (tokens line ! 3)) = Some sn \<and>
        machineIDs S m (ext_dst (tokens line ! 3)) = Some dn \<and>
        (mt = PStr ''Operation'' \<longrightarrow> Operations S (tokens line ! 4) \<noteq> None) \<and>
        (mt = PStr ''Error'' \<longrightarrow>
           (\<exists>n. py_int (tokens line ! 4) = Inr n \<and> Errors S n \<noteq> None)))"
proof
  assume "\<exists>d ws. process_line S m line = Emitted d ws"
  then obtain d ws where "process_line S m line = Emitted d ws" by blast
  from process_line_Emitted_inv [OF this] obtain d0 where
    "header_stage S m (tokens line) = Inr (tokens line ! 4, d0)" by blast
  from header_stage_success [OF this] obtain mt sn dn where
    c: "functionIDs S (ext_fID (tokens line ! 3)) = Some mt"
       "machineIDs S m (ext_source (tokens line ! 3)) = Some sn"
       "machineIDs S m (ext_dst (tokens line ! 3)) = Some dn"
    and mb: "\<exists>d. msg_branch S mt (tokens line ! 4)
             [(''date'', PStr (py_slice (Some 1) None (tokens line ! 0))),
              (''time'', PStr (py_slice None (Some (- 1)) (tokens line ! 1))),
              (''extID'', PStr (tokens line ! 3)),
              (''hexData'', PStr (tokens line ! 4)),
              (''msgType'', mt), (''source'', sn), (''dst'', dn)] = Inr d"
    by blast
  from mb [unfolded msg_branch_succeeds_iff] c
  show "\<exists>mt sn dn.
        functionIDs S (ext_fID (tokens line ! 3)) = Some mt \<and>
        machineIDs S m (ext_source (tokens line ! 3)) = Some sn \<and>
        machineIDs S m (ext_dst (tokens line ! 3)) = Some dn \<and>
        (mt = PStr ''Operation'' \<longrightarrow> Operations S (tokens line ! 4) \<noteq> None) \<and>
        (mt = PStr ''Error'' \<longrightarrow>
           (\<exists>n. py_int (tokens line ! 4) = Inr n \<and> Errors S n \<noteq> None))"
    by blast
next
  assume "\<exists>mt sn dn.
        functionIDs S (ext_fID (tokens line ! 3)) = Some mt \<and>
        machineIDs S m (ext_source (tokens line ! 3)) = Some sn \<and>
        machineIDs S m (ext_dst (tokens line ! 3)) = Some dn \<and>
        (mt = PStr ''Operation'' \<longrightarrow> Operations S (tokens line ! 4) \<noteq> None) \<and>
        (mt = PStr ''Error'' \<longrightarrow>
           (\<exists>n. py_int (tokens line ! 4) = Inr n \<and> Errors S n \<noteq> None))"
  then obtain mt sn dn where
    c: "functionIDs S (ext_fID (tokens line ! 3)) = Some mt"
       "machineIDs S m (ext_source (tokens line ! 3)) = Some sn"
       "machineIDs S m (ext_dst (tokens line ! 3)) = Some dn"
    and b: "(mt = PStr ''Operation'' \<longrightarrow> Operations S (tokens line ! 4) \<noteq> None) \<and>
        (mt = PStr ''Error'' \<longrightarrow>
           (\<exists>n. py_int (tokens line ! 4) = Inr n \<and> Errors S n \<noteq> None))"
    by blast
  have "\<exists>d0. msg_branch S mt (tokens line ! 4)
        [(''date'', PStr (py_slice (Some 1) None (tokens line ! 0))),
         (''time'', PStr (py_slice None (Some (- 1)) (tokens line ! 1))),
         (''extID'', PStr (tokens line ! 3)),
         (''hexData'', PStr (tokens line ! 4)),
         (''msgType'', mt), (''source'', sn), (''dst'', dn)] = Inr d0"
    unfolding msg_branch_succeeds_iff by (rule b)
  then obtain d0 where
    "msg_branch S mt (tokens line ! 4)
        [(''date'', PStr (py_slice (Some 1) None (tokens line ! 0))),
         (''time'', PStr (py_slice None (Some (- 1)) (tokens line ! 1))),
         (''extID'', PStr (tokens line ! 3)),
         (''hexData'', PStr (tokens line ! 4)),
         (''msgType'', mt), (''source'', sn), (''dst'', dn)] = Inr d0"
    by blast
  from candidate_emitted [OF assms c this]
  show "\<exists>d ws. process_line S m line = Emitted d ws" by blast
qed

text \<open>
  C3, as the script has it. For an identifier of at least 6 characters the function code
  is the two characters at \<open>-6..-4\<close>, the destination code those at \<open>-4..-2\<close> and the
  source code the last two. A shorter identifier is not rejected: the same slices are
  taken, clamped to the characters there are, so the function code has fewer than two
  characters. Whatever the length of its identifier, a candidate line with five tokens is
  emitted exactly when its three codes are in their tables and, for the message types
  ``Operation'' and ``Error'', the lookup of the payload succeeds; when it is dropped, the
  error is the KeyError of a lookup or the ValueError of the decimal reading, never one of
  the identifier. A line with a shorter identifier is dropped, by the KeyError of the
  function lookup, when every row label of the function table has two characters.
\<close>

theorem identifier_codes:
  "(6 \<le> length x \<longrightarrow>
      ext_fID x = take 2 (drop (length x - 6) x) \<and>
      ext_dst x = take 2 (drop (length x - 4) x) \<and>
      ext_source x = drop (length x - 2) x) \<and>
   (length x < 6 \<longrightarrow>
      ext_fID x = take (length x - 4) x \<and>
      ext_dst x = take (length x - 2 - (length x - 4)) (drop (length x - 4) x) \<and>
      ext_source x = drop (length x - 2) x \<and>
      length (ext_fID x) < 2) \<and>
   (''rcv'' \<in> set (tokens line) \<and> 4 < length (tokens line) \<longrightarrow>
      ((\<exists>d ws. process_line S m line = Emitted d ws) \<longleftrightarrow>
       (\<exists>mt sn dn.
          functionIDs S (ext_fID (tokens line ! 3)) = Some mt \<and>
          machineIDs S m (ext_source (tokens line ! 3)) = Some sn \<and>
          machineIDs S m (ext_dst (tokens line ! 3)) = Some dn \<and>
          (mt = PStr ''Operation'' \<longrightarrow> Operations S (tokens line ! 4) \<noteq> None) \<and>
          (mt = PStr ''Error'' \<longrightarrow>
             (\<exists>n. py_int (tokens line ! 4) = Inr n \<and> Errors S n \<noteq> None))))) \<and>
   (''rcv'' \<in> set (tokens line) \<and> 4 < length (tokens line) \<longrightarrow>
      (\<forall>e. process_line S m line = Dropped e \<longrightarrow> (\<exists>k. e = KeyError k) \<or> e = ValueError)) \<and>
   (''rcv'' \<in> set (tokens line) \<and> 4 < length (tokens line) \<and>
    length (tokens line ! 3) < 6 \<and>
    (\<forall>k. functionIDs S k \<noteq> None \<longrightarrow> length k = 2) \<longrightarrow>
      process_line S m line = Dropped (KeyError (PStr (ext_fID (tokens line ! 3)))))"
proof -
  have long: "6 \<le> length x \<longrightarrow>
      ext_fID x = take 2 (drop (length x - 6) x) \<and>
      ext_dst x = take 2 (drop (length x - 4) x) \<and>
      ext_source x = drop (length x - 2) x"
  proof
    assume l: "6 \<le> length x"
    then have "2 + (length x - 6) = length x - 4" by arith
    with codes_of_tail [OF l] have "ext_fID x = take 2 (drop (length x - 6) x)"
      and "ext_dst x = take 2 (drop (length x - 4) x)"
      by (simp_all only: drop_drop)
    then show "ext_fID x = take 2 (drop (length x - 6) x) \<and>
      ext_dst x = take 2 (drop (length x - 4) x) \<and>
      ext_source x = drop (length x - 2) x"
      using ext_source_eq [of x] by simp
  qed
  have short: "length x < 6 \<longrightarrow>
      ext_fID x = take (length x - 4) x \<and>
      ext_dst x = take (length x - 2 - (length x - 4)) (drop (length x - 4) x) \<and>
      ext_source x = drop (length x - 2) x \<and>
      length (ext_fID x) < 2"
  proof
    assume l: "length x < 6"
    then have z: "length x - 6 = 0" by simp
    have f: "ext_fID x = take (length x - 4) x"
      by (simp add: ext_fID_eq z)
    from l have "length (ext_fID x) < 2" by (simp add: f)
    with f ext_dst_eq [of x] ext_source_eq [of x]
    show "ext_fID x = take (length x - 4) x \<and>
      ext_dst x = take (length x - 2 - (length x - 4)) (drop (length x - 4) x) \<and>
      ext_source x = drop (length x - 2) x \<and>
      length (ext_fID x) < 2"
      by simp
  qed
  have emitted: "''rcv'' \<in> set (tokens line) \<and> 4 < length (tokens line) \<longrightarrow>
      ((\<exists>d ws. process_line S m line = Emitted d ws) \<longleftrightarrow>
       (\<exists>mt sn dn.
          functionIDs S (ext_fID (tokens line ! 3)) = Some mt \<and>
          machineIDs S m (ext_source (tokens line ! 3)) = Some sn \<and>
          machineIDs S m (ext_dst (tokens line ! 3)) = Some dn \<and>
          (mt = PStr ''Operation'' \<longrightarrow> Operations S (tokens line ! 4) \<noteq> None) \<and>
          (mt = PStr ''Error'' \<longrightarrow>
             (\<exists>n. py_int (tokens line ! 4) = Inr n \<and> Errors S n \<noteq> None))))"
  proof
    assume "''rcv'' \<in> set (tokens line) \<and> 4 < length (tokens line)"
    then have c: "''rcv'' \<in> set (tokens line)" and n: "4 < length (tokens line)" by simp_all
    show "(\<exists>d ws. process_line S m line = Emitted d ws) \<longleftrightarrow>
       (\<exists>mt sn dn.
          functionIDs S (ext_fID (tokens line ! 3)) = Some mt \<and>
          machineIDs S m (ext_source (tokens line ! 3)) = Some sn \<and>
          machineIDs S m (ext_dst (tokens line ! 3)) = Some dn \<and>
          (mt = PStr ''Operation'' \<longrightarrow> Operations S (tokens line ! 4) \<noteq> None) \<and>
          (mt = PStr ''Error'' \<longrightarrow>
             (\<exists>n. py_int (tokens line ! 4) = Inr n \<and> Errors S n \<noteq> None)))"
      by (rule candidate_emitted_iff [OF c n])
  qed
  have dropped: "''rcv'' \<in> set (tokens line) \<and> 4 < length (tokens line) \<longrightarrow>
      (\<forall>e. process_line S m line = Dropped e \<longrightarrow> (\<exists>k. e = KeyError k) \<or> e = ValueError)"
  proof (intro impI allI)
    fix e
    assume "''rcv'' \<in> set (tokens line) \<and> 4 < length (tokens line)"
    then have n: "4 < length (tokens line)" by simp
    assume "process_line S m line = Dropped e"
    from header_stage_error [OF n process_line_Dropped_inv [OF this]]
    show "(\<exists>k. e = KeyError k) \<or> e = ValueError" .
  qed
  have strict: "''rcv'' \<in> set (tokens line) \<and> 4 < length (tokens line) \<and>
    length (tokens line ! 3) < 6 \<and>
    (\<forall>k. functionIDs S k \<noteq> None \<longrightarrow> length k = 2) \<longrightarrow>
      process_line S m line = Dropped (KeyError (PStr (ext_fID (tokens line ! 3))))"
  proof
    assume a: "''rcv'' \<in> set (tokens line) \<and> 4 < length (tokens line) \<and>
      length (tokens line ! 3) < 6 \<and>
      (\<forall>k. functionIDs S k \<noteq> None \<longrightarrow> length k = 2)"
    then have c: "''rcv'' \<in> set (tokens line)" and n: "4 < length (tokens line)"
      and l: "length (tokens line ! 3) < 6"
      and t: "\<forall>k. functionIDs S k \<noteq> None \<longrightarrow> length k = 2"
      by simp_all
    have "length (ext_fID (tokens line ! 3)) < 2"
      using l by (simp add: ext_fID_eq)
    with t have "functionIDs S (ext_fID (tokens line ! 3)) = None" by fastforce
    from process_line_dropped [OF c header_stage_unknown_function [OF n this]]
    show "process_line S m line = Dropped (KeyError (PStr (ext_fID (tokens line ! 3))))" .
  qed
  from long short emitted dropped strict show ?thesis by (intro conjI)
qed

lemma short_identifier_emitted:
  "process_line demo_schema CARDING short_identifier_line =
     Emitted
      [(''date'', PStr ''2024-01-01''), (''time'', PStr ''12:00:02''),
       (''extID'', PStr ''10203''), (''hexData'', PStr ''00''),
       (''msgType'', PStr ''Telemetry''), (''source'', PStr ''Right Motor''),
       (''dst'', PStr ''Controller'')]
      []"
  by code_simp

lemma short_identifier_tokens:
  "''rcv'' \<in> set (tokens short_identifier_line)"
  "4 < length (tokens short_identifier_line)"
  "tokens short_identifier_line ! 3 = ''10203''"
  "functionIDs demo_schema (ext_fID (tokens short_identifier_line ! 3)) = Some (PStr ''Telemetry'')"
  "machineIDs demo_schema CARDING (ext_source (tokens short_identifier_line ! 3)) =
     Some (PStr ''Right Motor'')"
  "machineIDs demo_schema CARDING (ext_dst (tokens short_identifier_line ! 3)) =
     Some (PStr ''Controller'')"
  by code_simp+

lemma two_digit_schema_keys:
  "\<forall>k. functionIDs two_digit_schema k \<noteq> None \<longrightarrow> length k = 2"
  by (auto simp: two_digit_schema_def split: if_splits)

lemma short_identifier_function_code:
  "ext_fID (tokens short_identifier_line ! 3) = ''1''"
  "length (tokens short_identifier_line ! 3) < 6"
  by code_simp+

theorem identifier_codes_witness:
  "ext_fID ''0x010203'' = ''01'' \<and> ext_dst ''0x010203'' = ''02'' \<and> ext_source ''0x010203'' = ''03'' \<and>
   ext_fID ''10203'' = ''1'' \<and> ext_dst ''10203'' = ''02'' \<and> ext_source ''10203'' = ''03'' \<and>
   (\<exists>d ws. process_line demo_schema CARDING short_identifier_line = Emitted d ws) \<and>
   process_line two_digit_schema CARDING short_identifier_line = Dropped (KeyError (PStr ''1''))"
proof -
  note a = identifier_codes [of "''0x010203''" short_identifier_line demo_schema CARDING]
  note b = identifier_codes [of "''10203''" short_identifier_line demo_schema CARDING]
  note c = identifier_codes [of "''10203''" short_identifier_line two_digit_schema CARDING]
  from a [THEN conjunct1] have "ext_fID ''0x010203'' = ''01'' \<and> ext_dst ''0x010203'' = ''02'' \<and>
      ext_source ''0x010203'' = ''03''"
    by simp
  moreover from b [THEN conjunct2, THEN conjunct1]
  have "ext_fID ''10203'' = ''1'' \<and> ext_dst ''10203'' = ''02'' \<and>
      ext_source ''10203'' = ''03''"
    by simp
  moreover
  have "\<exists>mt sn dn.
          functionIDs demo_schema (ext_fID (tokens short_identifier_line ! 3)) = Some mt \<and>
          machineIDs demo_schema CARDING (ext_source (tokens short_identifier_line ! 3)) = Some sn \<and>
          machineIDs demo_schema CARDING (ext_dst (tokens short_identifier_line ! 3)) = Some dn \<and>
          (mt = PStr ''Operation'' \<longrightarrow> Operations demo_schema (tokens short_identifier_line ! 4) \<noteq> None) \<and>
          (mt = PStr ''Error'' \<longrightarrow>
             (\<exists>n. py_int (tokens short_identifier_line ! 4) = Inr n \<and> Errors demo_schema n \<noteq> None))"
    using short_identifier_tokens(4-6) by simp
  with b [THEN conjunct2, THEN conjunct2, THEN conjunct1, THEN mp,
      OF conjI [OF short_identifier_tokens(1,2)]]
  have "\<exists>d ws. process_line demo_schema CARDING short_identifier_line = Emitted d ws"
    by (rule iffD2)
  moreover
  from c [THEN conjunct2, THEN conjunct2, THEN conjunct2, THEN conjunct2, THEN mp,
      OF conjI [OF short_identifier_tokens(1)
        conjI [OF short_identifier_tokens(2)
          conjI [OF short_identifier_function_code(2) two_digit_schema_keys]]]]
  have "process_line two_digit_schema CARDING short_identifier_line = Dropped (KeyError (PStr ''1''))"
    by (simp only: short_identifier_function_code(1))
  ultimately show ?thesis by (intro conjI) simp_all
qed

text \<open>
  C3 as stated fails: the identifier \<open>10203\<close> has 5 characters, and with a row of the
  function table labelled \<open>1\<close> the line is emitted with the codes \<open>1\<close>, \<open>02\<close> and \<open>03\<close>
  resolved.
\<close>

theorem short_identifier_counterexample:
  "tokens short_identifier_line ! 3 = ''10203'' \<and>
   process_line demo_schema CARDING short_identifier_line =
     Emitted
      [(''date'', PStr ''2024-01-01''), (''time'', PStr ''12:00:02''),
       (''extID'', PStr ''10203''), (''hexData'', PStr ''00''),
       (''msgType'', PStr ''Telemetry''), (''source'', PStr ''Right Motor''),
       (''dst'', PStr ''Controller'')]
      []"
  using short_identifier_tokens(3) short_identifier_emitted by (intro conjI)

lemma step_dropped:
  "process_line S m line = Dropped e \<Longrightarrow>
     step S m line st = st\<lparr>warnings := warnings st @ [LineParsingError e]\<rparr>"
  by (simp add: step_def)

text \<open>
  C4, as the script has it. On a line whose function code resolves to the message type
  ``Error'' (and whose addresses resolve), the payload token is read as a decimal integer
  and looked up in the error table: a row found is stored as \<open>ErrorCommand\<close> of the
  emitted record, a missing row is a KeyError. A token that is no decimal integer is a
  ValueError. Both errors are caught by the handler of the line, which records a warning
  and drops the line.
\<close>

theorem error_payload_decimal:
  assumes "''rcv'' \<in> set (tokens line)" and "4 < length (tokens line)"
    and "functionIDs S (ext_fID (tokens line ! 3)) = Some (PStr ''Error'')"
    and "machineIDs S m (ext_source (tokens line ! 3)) = Some sn"
    and "machineIDs S m (ext_dst (tokens line ! 3)) = Some dn"
  shows "(\<forall>n name. py_int (tokens line ! 4) = Inr n \<and> Errors S n = Some name \<longrightarrow>
            (\<exists>d ws. process_line S m line = Emitted d ws \<and>
                     map_of d ''ErrorCommand'' = Some name)) \<and>
         (\<forall>n. py_int (tokens line ! 4) = Inr n \<and> Errors S n = None \<longrightarrow>
            process_line S m line = Dropped (KeyError (PInt n))) \<and>
         ((\<exists>e. py_int (tokens line ! 4) = Inl e) \<longrightarrow>
            process_line S m line = Dropped ValueError \<and>
            step S m line st = st\<lparr>warnings := warnings st @ [LineParsingError ValueError]\<rparr>)"
proof (intro conjI allI impI)
  fix n name
  assume "py_int (tokens line ! 4) = Inr n \<and> Errors S n = Some name"
  then have p: "py_int (tokens line ! 4) = Inr n" "Errors S n = Some name" by simp_all
  from candidate_emitted [OF assms msg_branch_error_ok [OF p]] obtain d ws where
    e: "process_line S m line = Emitted d ws" and
    k: "\<And>k. k \<notin> set signal_keys \<Longrightarrow> k \<noteq> ''LiftSide'' \<Longrightarrow> map_of d k =
      map_of (dict_set ''ErrorCommand'' name
        [(''date'', PStr (py_slice (Some 1) None (tokens line ! 0))),
         (''time'', PStr (py_slice None (Some (- 1)) (tokens line ! 1))),
         (''extID'', PStr (tokens line ! 3)),
         (''hexData'', PStr (tokens line ! 4)),
         (''msgType'', PStr ''Error''), (''source'', sn), (''dst'', dn)]) k"
    by blast
  have "map_of d ''ErrorCommand'' = Some name"
    by (simp add: k signal_keys_def map_of_dict_set)
  with e show "\<exists>d ws. process_line S m line = Emitted d ws \<and>
                     map_of d ''ErrorCommand'' = Some name"
    by blast
next
  fix n
  assume "py_int (tokens line ! 4) = Inr n \<and> Errors S n = None"
  then have p: "py_int (tokens line ! 4) = Inr n" "Errors S n = None" by simp_all
  have "header_stage S m (tokens line) = Inl (KeyError (PInt n))"
    unfolding header_stage_eq [OF assms(2-5)] msg_branch_error_unknown [OF p] ebind_Inl ..
  from process_line_dropped [OF assms(1) this]
  show "process_line S m line = Dropped (KeyError (PInt n))" .
next
  assume "\<exists>e. py_int (tokens line ! 4) = Inl e"
  then obtain e where p: "py_int (tokens line ! 4) = Inl e" by blast
  have "header_stage S m (tokens line) = Inl ValueError"
    unfolding header_stage_eq [OF assms(2-5)] msg_branch_error_invalid [OF p] ebind_Inl ..
  from process_line_dropped [OF assms(1) this]
  show d: "process_line S m line = Dropped ValueError" .
  show "step S m line st = st\<lparr>warnings := warnings st @ [LineParsingError ValueError]\<rparr>"
    by (rule step_dropped [OF d])
qed

lemma error_hex_tokens:
  "''rcv'' \<in> set (tokens error_hex_line)"
  "4 < length (tokens error_hex_line)"
  "functionIDs demo_schema (ext_fID (tokens error_hex_line ! 3)) = Some (PStr ''Error'')"
  "machineIDs demo_schema FLYER (ext_source (tokens error_hex_line ! 3)) = Some (PStr ''Right Motor'')"
  "machineIDs demo_schema FLYER (ext_dst (tokens error_hex_line ! 3)) = Some (PStr ''Controller'')"
  "py_int (tokens error_hex_line ! 4) = Inl ValueError"
  "tokens error_hex_line ! 4 = ''0A''"
  by code_simp+

lemma error_dec_tokens:
  "''rcv'' \<in> set (tokens error_dec_line)"
  "4 < length (tokens error_dec_line)"
  "functionIDs demo_schema (ext_fID (tokens error_dec_line ! 3)) = Some (PStr ''Error'')"
  "machineIDs demo_schema FLYER (ext_source (tokens error_dec_line ! 3)) = Some (PStr ''Right Motor'')"
  "machineIDs demo_schema FLYER (ext_dst (tokens error_dec_line ! 3)) = Some (PStr ''Controller'')"
  "py_int (tokens error_dec_line ! 4) = Inr 7"
  "Errors demo_schema 7 = Some (PStr ''Overcurrent'')"
  by code_simp+

lemma error_separator_tokens:
  "''rcv'' \<in> set (tokens error_separator_line)"
  "4 < length (tokens error_separator_line)"
  "functionIDs demo_schema (ext_fID (tokens error_separator_line ! 3)) = Some (PStr ''Error'')"
  "machineIDs demo_schema FLYER (ext_source (tokens error_separator_line ! 3)) =
     Some (PStr ''Right Motor'')"
  "machineIDs demo_schema FLYER (ext_dst (tokens error_separator_line ! 3)) =
     Some (PStr ''Controller'')"
  "py_int (tokens error_separator_line ! 4) = Inl ValueError"
  by code_simp+

lemma error_hex_dropped:
  "process_line demo_schema FLYER error_hex_line = Dropped ValueError"
  by code_simp

lemma error_hex_run:
  "allDicts (decode_log demo_schema FLYER [error_hex_line]) = []"
  by code_simp

theorem error_payload_decimal_witness:
  "process_line demo_schema FLYER error_hex_line = Dropped ValueError \<and>
   process_line demo_schema FLYER error_separator_line = Dropped ValueError \<and>
   (\<exists>d ws. process_line demo_schema FLYER error_dec_line = Emitted d ws \<and>
      map_of d ''ErrorCommand'' = Some (PStr ''Overcurrent''))"
proof -
  from error_payload_decimal [OF error_hex_tokens(1-5)] error_hex_tokens(6)
  have "process_line demo_schema FLYER error_hex_line = Dropped ValueError" by blast
  moreover from error_payload_decimal [OF error_separator_tokens(1-5)] error_separator_tokens(6)
  have "process_line demo_schema FLYER error_separator_line = Dropped ValueError" by blast
  moreover from error_payload_decimal [OF error_dec_tokens(1-5)] error_dec_tokens(6,7)
  have "\<exists>d ws. process_line demo_schema FLYER error_dec_line = Emitted d ws \<and>
      map_of d ''ErrorCommand'' = Some (PStr ''Overcurrent'')" by blast
  ultimately show ?thesis by (intro conjI)
qed

text \<open>
  C4 as stated fails: the payload \<open>0A\<close> of an ``Error'' line is no decimal integer, and
  the line is dropped instead of being emitted without the error name.
\<close>

theorem error_payload_counterexample:
  "functionIDs demo_schema (ext_fID (tokens error_hex_line ! 3)) = Some (PStr ''Error'') \<and>
   tokens error_hex_line ! 4 = ''0A'' \<and>
   py_int (tokens error_hex_line ! 4) = Inl ValueError \<and>
   process_line demo_schema FLYER error_hex_line = Dropped ValueError \<and>
   allDicts (decode_log demo_schema FLYER [error_hex_line]) = []"
  using error_hex_tokens(3,7,6) error_hex_dropped error_hex_run by (intro conjI)

section \<open>Claims on the tokenizer\<close>

lemma split_sep_nonempty: "split_sep sep s \<noteq> []"
  by (induction s) (auto split: list.splits)

lemma join_sep_cons: "ts \<noteq> [] \<Longrightarrow> join_sep sep (t # ts) = t @ sep # join_sep sep ts"
  by (cases ts) simp_all

lemma join_sep_push: "join_sep sep ((c # t) # ts) = c # join_sep sep (t # ts)"
  by (cases ts) simp_all

lemma join_split: "join_sep sep (split_sep sep s) = s"
proof (induction s)
  case Nil
  then show ?case by simp
next
  case (Cons c cs)
  show ?case
  proof (cases "c = sep")
    case True
    then show ?thesis
      by (simp add: join_sep_cons [OF split_sep_nonempty] Cons.IH)
  next
    case False
    obtain t ts where s: "split_sep sep cs = t # ts"
      using split_sep_nonempty [of sep cs] by (cases "split_sep sep cs") auto
    with False Cons.IH show ?thesis
      by (simp add: join_sep_push)
  qed
qed

lemma split_no_sep: "t \<in> set (split_sep sep s) \<Longrightarrow> sep \<notin> set t"
proof (induction s arbitrary: t)
  case Nil
  then show ?case by simp
next
  case (Cons c cs)
  show ?case
  proof (cases "c = sep")
    case True
    with Cons show ?thesis by auto
  next
    case False
    obtain u us where s: "split_sep sep cs = u # us"
      using split_sep_nonempty [of sep cs] by (cases "split_sep sep cs") auto
    from Cons.prems False s have "t = c # u \<or> t \<in> set us" by simp
    then show ?thesis
    proof
      assume "t = c # u"
      moreover have "sep \<notin> set u" by (rule Cons.IH) (simp add: s)
      ultimately show ?thesis using False by auto
    next
      assume "t \<in> set us"
      then show ?thesis by (intro Cons.IH) (simp add: s)
    qed
  qed
qed

lemma slice_date: "py_slice (Some 1) None t = drop 1 t"
  by (cases t) (simp_all add: py_slice_def norm_bound_def)

lemma slice_time: "py_slice None (Some (- 1)) t = butlast t"
proof -
  have "nat (max 0 (int (length t) - 1)) = length t - 1" by arith
  then show ?thesis by (simp add: py_slice_def norm_bound_def butlast_conv_take)
qed

lemma header_stage_few_tokens:
  "length splits < 5 \<Longrightarrow> header_stage S m splits = Inl IndexError"
  by (simp add: header_stage_def ebind_def py_index_def)


lemma step_ignored: "process_line S m line = Ignored \<Longrightarrow> step S m line st = st"
  by (simp add: step_def)

text \<open>
  C7, as the script has it. The line is split at every single space character: joining
  the tokens with single spaces gives the line back and no token holds a space (so two
  spaces in a row give an empty token, and a tab separates nothing). A line none of
  whose tokens is \<open>rcv\<close> is passed over and leaves the state of the run as it was. For
  an emitted record the date is token 0 without its first character, the time token 1
  without its last, the extended identifier token 3 and the payload token 4. A candidate
  line with fewer than five tokens is dropped with a warning, and the loop goes on with
  the lines after it.
\<close>

theorem tokenizer_behaviour:
  "join_sep (CHR '' '') (tokens line) = line \<and>
   (\<forall>t\<in>set (tokens line). CHR '' '' \<notin> set t) \<and>
   (''rcv'' \<notin> set (tokens line) \<longrightarrow>
      process_line S m line = Ignored \<and> step S m line st = st) \<and>
   (\<forall>d ws. process_line S m line = Emitted d ws \<longrightarrow>
      ''rcv'' \<in> set (tokens line) \<and> 4 < length (tokens line) \<and>
      map_of d ''date'' = Some (PStr (drop 1 (tokens line ! 0))) \<and>
      map_of d ''time'' = Some (PStr (butlast (tokens line ! 1))) \<and>
      map_of d ''extID'' = Some (PStr (tokens line ! 3)) \<and>
      map_of d ''hexData'' = Some (PStr (tokens line ! 4))) \<and>
   (''rcv'' \<in> set (tokens line) \<and> length (tokens line) < 5 \<longrightarrow>
      process_line S m line = Dropped IndexError \<and>
      decode_lines S m (line # rest) st =
        decode_lines S m rest (st\<lparr>warnings := warnings st @ [LineParsingError IndexError]\<rparr>))"
proof (intro conjI allI impI ballI)
  show "join_sep (CHR '' '') (tokens line) = line"
    by (simp add: tokens_def join_split)
next
  fix t assume "t \<in> set (tokens line)"
  then show "CHR '' '' \<notin> set t"
    unfolding tokens_def by (rule split_no_sep)
next
  assume n: "''rcv'' \<notin> set (tokens line)"
  show i: "process_line S m line = Ignored" by (rule process_line_ignored [OF n])
  show "step S m line st = st" by (rule step_ignored [OF i])
next
  fix d ws
  assume e: "process_line S m line = Emitted d ws"
  from process_line_Emitted_inv [OF e] show "''rcv'' \<in> set (tokens line)" by blast
  from emitted_keeps_header [OF e] obtain d0 where
    hs: "header_stage S m (tokens line) = Inr (tokens line ! 4, d0)" and
    k: "\<And>k. k \<notin> set signal_keys \<Longrightarrow> k \<noteq> ''LiftSide'' \<Longrightarrow> map_of d k = map_of d0 k"
    by blast
  from header_stage_success [OF hs] show "4 < length (tokens line)" by blast
  from header_stage_fields [OF hs] have
    f: "map_of d0 ''date'' = Some (PStr (py_slice (Some 1) None (tokens line ! 0)))"
      "map_of d0 ''time'' = Some (PStr (py_slice None (Some (- 1)) (tokens line ! 1)))"
      "map_of d0 ''extID'' = Some (PStr (tokens line ! 3))"
      "map_of d0 ''hexData'' = Some (PStr (tokens line ! 4))"
    by blast+
  show "map_of d ''date'' = Some (PStr (drop 1 (tokens line ! 0)))"
    using f(1) by (simp add: k signal_keys_def slice_date)
  show "map_of d ''time'' = Some (PStr (butlast (tokens line ! 1)))"
    using f(2) by (simp add: k signal_keys_def slice_time)
  show "map_of d ''extID'' = Some (PStr (tokens line ! 3))"
    using f(3) by (simp add: k signal_keys_def)
  show "map_of d ''hexData'' = Some (PStr (tokens line ! 4))"
    using f(4) by (simp add: k signal_keys_def)
next
  assume a: "''rcv'' \<in> set (tokens line) \<and> length (tokens line) < 5"
  then have c: "''rcv'' \<in> set (tokens line)" and l: "length (tokens line) < 5" by simp_all
  show d: "process_line S m line = Dropped IndexError"
    by (rule process_line_dropped [OF c header_stage_few_tokens [OF l]])
  show "decode_lines S m (line # rest) st =
        decode_lines S m rest (st\<lparr>warnings := warnings st @ [LineParsingError IndexError]\<rparr>)"
    by (rule decode_lines_dropped [OF d])
qed

lemma few_tokens_facts:
  "''rcv'' \<in> set (tokens few_tokens_line)" "length (tokens few_tokens_line) < 5"
  "''rcv'' \<notin> set (tokens transmit_line)"
  by code_simp+

theorem tokenizer_behaviour_witness:
  "process_line demo_schema FLYER transmit_line = Ignored \<and>
   process_line demo_schema FLYER few_tokens_line = Dropped IndexError \<and>
   decode_lines demo_schema FLYER [few_tokens_line, telemetry_line] \<lparr>allDicts = [], warnings = []\<rparr> =
     decode_lines demo_schema FLYER [telemetry_line]
       \<lparr>allDicts = [], warnings = [LineParsingError IndexError]\<rparr> \<and>
   map_of (emitted_record (process_line demo_schema FLYER telemetry_line)) ''date'' =
     Some (PStr (drop 1 (tokens telemetry_line ! 0)))"
proof -
  note ignored = tokenizer_behaviour [of transmit_line demo_schema FLYER,
      THEN conjunct2, THEN conjunct2, THEN conjunct1, THEN mp, OF few_tokens_facts(3)]
  note dropped = tokenizer_behaviour [of few_tokens_line demo_schema FLYER
      "\<lparr>allDicts = [], warnings = []\<rparr>" "[telemetry_line]",
      THEN conjunct2, THEN conjunct2, THEN conjunct2, THEN conjunct2, THEN mp,
      OF conjI [OF few_tokens_facts(1,2)]]
  note fields = tokenizer_behaviour [of telemetry_line demo_schema FLYER,
      THEN conjunct2, THEN conjunct2, THEN conjunct2, THEN conjunct1, THEN spec, THEN spec,
      THEN mp, OF telemetry_emitted]
  have a: "process_line demo_schema FLYER transmit_line = Ignored"
    by (rule ignored [THEN conjunct1])
  have b: "process_line demo_schema FLYER few_tokens_line = Dropped IndexError"
    by (rule dropped [THEN conjunct1])
  from dropped [THEN conjunct2]
  have c: "decode_lines demo_schema FLYER [few_tokens_line, telemetry_line]
        \<lparr>allDicts = [], warnings = []\<rparr> =
     decode_lines demo_schema FLYER [telemetry_line]
       \<lparr>allDicts = [], warnings = [LineParsingError IndexError]\<rparr>"
    by (simp only: run_state.simps append_Nil)
  have d: "map_of (emitted_record (process_line demo_schema FLYER telemetry_line)) ''date'' =
     Some (PStr (drop 1 (tokens telemetry_line ! 0)))"
    unfolding telemetry_emitted outcome.sel
    by (rule fields [THEN conjunct2, THEN conjunct2, THEN conjunct1])
  from a b c d show ?thesis by (intro conjI)
qed

lemma double_space_facts:
  "tokens double_space_line ! 3 = ''rcv''"
  "spec_whitespace_tokens double_space_line ! 3 = ''0x010203''"
  "process_line demo_schema FLYER double_space_line = Dropped (KeyError (PStr []))"
  "spec_whitespace_tokens tab_separated_line ! 2 = ''rcv''"
  "process_line demo_schema FLYER tab_separated_line = Ignored"
  by code_simp+

text \<open>
  C7 as stated fails where splitting at spaces and splitting on whitespace differ. With
  two spaces after the date, token 3 of the script is \<open>rcv\<close>, not the identifier, and the
  line is dropped; with tabs between the fields the script sees one token and passes the
  line over, although a whitespace split finds the token \<open>rcv\<close>.
\<close>

theorem whitespace_split_counterexample:
  "tokens double_space_line ! 3 = ''rcv'' \<and>
   spec_whitespace_tokens double_space_line ! 3 = ''0x010203'' \<and>
   process_line demo_schema FLYER double_space_line = Dropped (KeyError (PStr [])) \<and>
   spec_whitespace_tokens tab_separated_line ! 2 = ''rcv'' \<and>
   process_line demo_schema FLYER tab_separated_line = Ignored"
  using double_space_facts by (intro conjI)

end
